theory Spec2Isabelle
  imports Complex_Main
begin

section \<open>JavaScript strings and regular expressions\<close>

text \<open>
  Strings are lists of characters. The model is exact on ASCII text: \<open>toLowerCase\<close>
  maps \<open>A\<close>..\<open>Z\<close> to \<open>a\<close>..\<open>z\<close>, white space is the ASCII white space
  (space, tab, line feed, vertical tab, form feed, carriage return), and a word
  character of a regular expression is a letter, a digit or the underscore.
\<close>

definition lower_char :: "char \<Rightarrow> char" where
  "lower_char c =
     (case map_of (zip ''ABCDEFGHIJKLMNOPQRSTUVWXYZ'' ''abcdefghijklmnopqrstuvwxyz'') c of
        Some d \<Rightarrow> d | None \<Rightarrow> c)"

definition toLowerCase :: "string \<Rightarrow> string" where
  "toLowerCase s = map lower_char s"

definition is_space :: "char \<Rightarrow> bool" where
  "is_space c = (c \<in> set [CHR '' '', CHR 0x09, CHR 0x0A, CHR 0x0B, CHR 0x0C, CHR 0x0D])"

definition trim :: "string \<Rightarrow> string" where
  "trim s = rev (dropWhile is_space (rev (dropWhile is_space s)))"

fun starts_with :: "string \<Rightarrow> string \<Rightarrow> bool" where
  "starts_with [] s = True"
| "starts_with (c # cs) [] = False"
| "starts_with (c # cs) (d # ds) = (c = d \<and> starts_with cs ds)"

text \<open>\<open>s.includes(sub)\<close>: \<open>sub\<close> occurs in \<open>s\<close> as a contiguous substring.\<close>

fun str_includes :: "string \<Rightarrow> string \<Rightarrow> bool" where
  "str_includes [] sub = (sub = [])"
| "str_includes (c # cs) sub = (starts_with sub (c # cs) \<or> str_includes cs sub)"

text \<open>\<open>xs.join(sep)\<close>.\<close>

fun join :: "string \<Rightarrow> string list \<Rightarrow> string" where
  "join sep [] = []"
| "join sep [x] = x"
| "join sep (x # y # ys) = x @ sep @ join sep (y # ys)"

definition is_word_char :: "char \<Rightarrow> bool" where
  "is_word_char c =
     (c \<in> set ''abcdefghijklmnopqrstuvwxyzABCDEFGHIJKLMNOPQRSTUVWXYZ0123456789_'')"

text \<open>
  The regular expressions of the source are built from the following; all have the
  \<open>i\<close> flag but \<open>/18/\<close>, which has no letter:
  a literal (written in lower case), \<open>r?\<close>, \<open>\s*\<close>, a character class (in lower
  case), \<open>\b\<close>, \<open>^\<close>, \<open>$\<close>, concatenation and alternation. A position is the
  character before the cursor (if any) and the text after it. \<open>rx_match r pos\<close> lists
  the positions at which a match of \<open>r\<close> starting at \<open>pos\<close> can end, in the order
  in which a backtracking matcher tries them (greedy first).
\<close>

datatype rx = Lit string | Opt rx | Spaces | Cls string | WB | Bol | Eol | Cat rx rx | Or rx rx

type_synonym rx_pos = "char option \<times> string"

fun is_word_opt :: "char option \<Rightarrow> bool" where
  "is_word_opt None = False"
| "is_word_opt (Some c) = is_word_char c"

fun first_char :: "string \<Rightarrow> char option" where
  "first_char [] = None"
| "first_char (c # cs) = Some c"

fun lit_match :: "string \<Rightarrow> char option \<Rightarrow> string \<Rightarrow> rx_pos list" where
  "lit_match [] p s = [(p, s)]"
| "lit_match (c # cs) p [] = []"
| "lit_match (c # cs) p (d # ds) = (if c = lower_char d then lit_match cs (Some d) ds else [])"

fun spaces_match :: "char option \<Rightarrow> string \<Rightarrow> rx_pos list" where
  "spaces_match p [] = [(p, [])]"
| "spaces_match p (c # cs) =
     (if is_space c then spaces_match (Some c) cs @ [(p, c # cs)] else [(p, c # cs)])"

fun rx_match :: "rx \<Rightarrow> rx_pos \<Rightarrow> rx_pos list" where
  "rx_match (Lit w) (p, s) = lit_match w p s"
| "rx_match (Opt r) ps = rx_match r ps @ [ps]"
| "rx_match Spaces (p, s) = spaces_match p s"
| "rx_match (Cls cs) (p, s) =
     (case s of [] \<Rightarrow> [] | c # t \<Rightarrow> if lower_char c \<in> set cs then [(Some c, t)] else [])"
| "rx_match WB (p, s) = (if is_word_opt p \<noteq> is_word_opt (first_char s) then [(p, s)] else [])"
| "rx_match Bol (p, s) = (if p = None then [(p, s)] else [])"
| "rx_match Eol (p, s) = (if s = [] then [(p, s)] else [])"
| "rx_match (Cat a b) ps = concat (map (rx_match b) (rx_match a ps))"
| "rx_match (Or a b) ps = rx_match a ps @ rx_match b ps"

text \<open>\<open>r.test(s)\<close>: some match starts at some position of \<open>s\<close>.\<close>

fun rx_search :: "rx \<Rightarrow> char option \<Rightarrow> string \<Rightarrow> bool" where
  "rx_search r p [] = (rx_match r (p, []) \<noteq> [])"
| "rx_search r p (c # cs) = (rx_match r (p, c # cs) \<noteq> [] \<or> rx_search r (Some c) cs)"

definition rx_test :: "rx \<Rightarrow> string \<Rightarrow> bool" where
  "rx_test r s = rx_search r None s"

text \<open>
  \<open>s.match(r)\<close> for \<open>r\<close> with the \<open>g\<close> flag: the texts of all matches, leftmost
  first and not overlapping (the counter skips the characters of the match just
  found; after an empty match the search moves on by one character), and \<open>null\<close>
  (\<open>None\<close>) when there is none.
\<close>

fun rx_match_all :: "rx \<Rightarrow> nat \<Rightarrow> char option \<Rightarrow> string \<Rightarrow> string list" where
  "rx_match_all r k p [] = (if k = 0 \<and> rx_match r (p, []) \<noteq> [] then [[]] else [])"
| "rx_match_all r (Suc k) p (c # cs) = rx_match_all r k (Some c) cs"
| "rx_match_all r 0 p (c # cs) =
     (case rx_match r (p, c # cs) of
        [] \<Rightarrow> rx_match_all r 0 (Some c) cs
      | (q, rest) # _ \<Rightarrow>
          (let n = length (c # cs) - length rest
           in take n (c # cs) # rx_match_all r (n - 1) (Some c) cs))"

definition match_g :: "rx \<Rightarrow> string \<Rightarrow> string list option" where
  "match_g r s = (case rx_match_all r 0 None s of [] \<Rightarrow> None | ms \<Rightarrow> Some ms)"

text \<open>\<open>(w1|w2|...)\<close>, \<open>^r$\<close> and \<open>\br\b\<close>.\<close>

fun alts :: "string list \<Rightarrow> rx" where
  "alts [] = Cls []"
| "alts [w] = Lit w"
| "alts (w # ws) = Or (Lit w) (alts ws)"

definition anchored :: "rx \<Rightarrow> rx" where
  "anchored r = Cat Bol (Cat r Eol)"

definition whole_word :: "rx \<Rightarrow> rx" where
  "whole_word r = Cat WB (Cat r WB)"

section \<open>Query heuristics (shared/queryHeuristics.ts)\<close>

definition normalize :: "string \<Rightarrow> string" where
  "normalize s = trim (toLowerCase s)"

definition KNOWN_TERMS :: "string list" where
  "KNOWN_TERMS =
     [''abhyudaya'', ''docc'', ''sitaras'', ''samavesh'', ''intex'',
      ''aicte'', ''aacsb'', ''amba'', ''ppt'', ''cis'',
      ''mccombs'', ''insead'', ''cornell'', ''michigan'',
      ''barcelona'', ''reutlingen'', ''esic'', ''esb'']"

definition isKnownPGPMTerm :: "string \<Rightarrow> bool" where
  "isKnownPGPMTerm query = List.member KNOWN_TERMS (normalize query)"

definition relevantKeywords :: "string list" where
  "relevantKeywords =
     [''spjimr'', ''pgpm'', ''post graduate programme'', ''management'',
      ''admission'', ''eligibility'', ''curriculum'', ''fees'', ''placement'',
      ''duration'', ''campus'', ''accreditation'', ''ranking'', ''faculty'']"

definition hasRelevantKeywords :: "string \<Rightarrow> bool" where
  "hasRelevantKeywords query = list_ex (str_includes (normalize query)) relevantKeywords"

definition followUpPatterns :: "rx list" where
  "followUpPatterns =
     [anchored (Or (alts [''longer'', ''more'', ''elaborate'', ''tell me more'', ''expand''])
                   (Cat (Lit ''detail'') (Opt (Lit ''s'')))),
      anchored (alts [''what else'', ''any other'', ''additional'', ''anything else'']),
      anchored (alts [''it'', ''this'', ''that'', ''the program'', ''the course'']),
      anchored (Cat (alts [''give me'', ''show me'', ''tell me''])
                 (Cat (Lit '' '') (alts [''more'', ''all'', ''everything'', ''details''])))]"

definition isFollowUpQuery :: "string \<Rightarrow> bool" where
  "isFollowUpQuery query = list_ex (\<lambda>p. rx_test p (normalize query)) followUpPatterns"

section \<open>JavaScript values\<close>

text \<open>
  Numbers are read as reals: a literal denotes its decimal value, and comparisons and
  \<open>Math.max\<close> are those of the reals. The fields the code reads out of the decoded
  reply of a language model can hold any JSON value. \<open>JOther t n\<close> stands for a
  string, an array or an object, given by what the code can observe of it: its
  truthiness \<open>t\<close> and its numeric reading \<open>n\<close> (\<open>None\<close> for \<open>NaN\<close>).
\<close>

datatype js = JUndefined | JNull | JBool bool | JNum real | JNaN | JOther bool "real option"

fun truthy :: "js \<Rightarrow> bool" where
  "truthy JUndefined = False"
| "truthy JNull = False"
| "truthy (JBool b) = b"
| "truthy (JNum r) = (r \<noteq> 0)"
| "truthy JNaN = False"
| "truthy (JOther t n) = t"

text \<open>\<open>a || b\<close> and \<open>a && b\<close> return one of their operands.\<close>

definition js_or :: "js \<Rightarrow> js \<Rightarrow> js" where
  "js_or a b = (if truthy a then a else b)"

definition js_and :: "js \<Rightarrow> js \<Rightarrow> js" where
  "js_and a b = (if truthy a then b else a)"

fun to_number :: "js \<Rightarrow> real option" where
  "to_number JUndefined = None"
| "to_number JNull = Some 0"
| "to_number (JBool b) = Some (if b then 1 else 0)"
| "to_number (JNum r) = Some r"
| "to_number JNaN = None"
| "to_number (JOther t n) = n"

text \<open>\<open>a >= t\<close> for a number \<open>t\<close>: false when \<open>a\<close> reads as \<open>NaN\<close>.\<close>

definition js_ge :: "js \<Rightarrow> real \<Rightarrow> bool" where
  "js_ge a t = (case to_number a of None \<Rightarrow> False | Some x \<Rightarrow> t \<le> x)"

text \<open>\<open>Math.max(t, a)\<close> for a number \<open>t\<close>.\<close>

definition js_max :: "real \<Rightarrow> js \<Rightarrow> js" where
  "js_max t a = (case to_number a of None \<Rightarrow> JNaN | Some x \<Rightarrow> JNum (max t x))"

text \<open>A number between 0 and 1, the range of a confidence.\<close>

definition in_unit :: "js \<Rightarrow> bool" where
  "in_unit j = (case j of JNum c \<Rightarrow> 0 \<le> c \<and> c \<le> 1 | _ \<Rightarrow> False)"

section \<open>Conversation memory (shared/conversationMemory.ts)\<close>

text \<open>
  A turn as \<open>addTurn\<close> receives it, and as the history stores it (with the
  time stamp \<open>new Date()\<close> taken at insertion; the clock is an input of the model).
\<close>

record turn_input =
  question :: string
  answer :: string
  turn_confidence :: js
  turn_sources :: "string list"

record turn = turn_input +
  timestamp :: nat

record ConversationMemory =
  history :: "turn list"

definition maxHistoryLength :: nat where
  "maxHistoryLength = 10"

definition new_memory :: ConversationMemory where
  "new_memory = \<lparr>history = []\<rparr>"

definition stamp :: "nat \<Rightarrow> turn_input \<Rightarrow> turn" where
  "stamp now t = turn_input.extend t \<lparr>timestamp = now\<rparr>"

text \<open>
  \<open>push\<close> appends; \<open>shift\<close> removes the first element. The list is never empty
  after the push, so \<open>tl\<close> is the shift.
\<close>

definition addTurn :: "nat \<Rightarrow> turn_input \<Rightarrow> ConversationMemory \<Rightarrow> ConversationMemory" where
  "addTurn now t m =
     (let h = history m @ [stamp now t]
      in if length h > maxHistoryLength then m\<lparr>history := tl h\<rparr> else m\<lparr>history := h\<rparr>)"

definition getHistory :: "ConversationMemory \<Rightarrow> turn list" where
  "getHistory m = history m"

definition clear :: "ConversationMemory \<Rightarrow> ConversationMemory" where
  "clear m = m\<lparr>history := []\<rparr>"

text \<open>The operations that change a memory, and a run of them from a fresh memory.\<close>

datatype mem_op = AddTurn nat turn_input | Clear

fun apply_mem_op :: "ConversationMemory \<Rightarrow> mem_op \<Rightarrow> ConversationMemory" where
  "apply_mem_op m (AddTurn now t) = addTurn now t m"
| "apply_mem_op m Clear = clear m"

definition run_mem_ops :: "mem_op list \<Rightarrow> ConversationMemory" where
  "run_mem_ops ops = foldl apply_mem_op new_memory ops"

text \<open>
  \<open>getRecentContext(turnCount)\<close>: \<open>history.slice(-turnCount)\<close> is the last
  \<open>turnCount\<close> turns (the whole history for \<open>slice(-0)\<close>), each rendered as a
  \<open>Q:\<close> line and an \<open>A:\<close> line.
\<close>

definition slice_last :: "nat \<Rightarrow> 'a list \<Rightarrow> 'a list" where
  "slice_last n xs = (if n = 0 then xs else drop (length xs - n) xs)"

definition render_turn :: "turn \<Rightarrow> string" where
  "render_turn t = ''Q: '' @ question t @ ''\<newline>A: '' @ answer t"

definition getRecentContext :: "nat \<Rightarrow> ConversationMemory \<Rightarrow> string" where
  "getRecentContext turnCount m =
     join ''\<newline>\<newline>'' (map render_turn (slice_last turnCount (history m)))"

section \<open>Composite query (shared/conversation.ts)\<close>

text \<open>A string is truthy when it is not empty.\<close>

definition buildCompositeQuery :: "string \<Rightarrow> ConversationMemory \<Rightarrow> string" where
  "buildCompositeQuery qn memory =
     (let q = trim qn in
      if q = [] then q
      else if isKnownPGPMTerm q then q
      else if isFollowUpQuery q then
        (let recentContext = getRecentContext 5 memory in
         if recentContext \<noteq> []
         then ''Previous conversation context:\<newline>'' @ recentContext @
              ''\<newline>\<newline>Current user request: '' @ q @
              ''\<newline>\<newline>Note: This appears to be a follow-up query asking for more detailed information about the previously discussed SPJIMR PGPM topics.''
         else ''User request: '' @ q @
              '' (Note: This appears to be a request for detailed SPJIMR PGPM information)'')
      else
        (let recentContext = getRecentContext 2 memory in
         if recentContext \<noteq> [] then recentContext @ ''\<newline>\<newline>User: '' @ q else q))"

section \<open>Pipeline state, errors and external services (types/rag.ts)\<close>

record Document =
  pageContent :: string
  source :: string

record RAGState =
  query :: string
  isRelevant :: js
  retrievedDocs :: "Document list"
  hasAnswer :: js
  context' :: string
  response :: string
  needsValidation :: bool
  confidence :: js
  sources :: "string list"
  errorMessage :: "string option"

definition NOT_RELEVANT :: string where
  "NOT_RELEVANT = ''I can only answer questions about the SPJIMR PGPM program. Please ask about admissions, curriculum, fees, placements, or eligibility.''"

definition NO_INFORMATION :: string where
  "NO_INFORMATION = ''I don't have enough information to answer this specific question about the PGPM program. Please contact SPJIMR directly for more details.''"

definition VERIFICATION_FAILED :: string where
  "VERIFICATION_FAILED = ''I'm having trouble processing this request right now. Please try rephrasing your question or contact SPJIMR directly.''"

datatype rag_error = ValidationError string | RetrievalError string | GenerationError string

text \<open>
  The language model and the vector store are outside the program. A call of the model
  either fails (the awaited promise rejects, with a message) or returns a content. For
  the classifier, the judge and the response validator the content goes through
  \<open>JSON.parse\<close>, which is a built-in: the outcome of the parse is taken as the
  reply. \<open>SyntaxError\<close>: the text is not JSON. \<open>JsonNull\<close>: it is the literal
  \<open>null\<close>, on which reading a property throws. \<open>JsonValue f\<close>: any other value,
  where \<open>f name\<close> is what reading the property \<open>name\<close> gives (\<open>JUndefined\<close> for a
  property the value does not have; a number, a string or a boolean has none of the
  properties read).
\<close>

datatype parsed = SyntaxError | JsonNull | JsonValue "string \<Rightarrow> js"

datatype 'a llm_reply = CallFailed string | Content 'a

text \<open>
  One request's environment: the reply to each call, as a function of the values the
  prompt is filled with. \<open>retrieval\<close> is the outcome of \<open>retrievalNode\<close> for a query
  (the ordered documents and the sources, or \<open>None\<close> when it throws its
  \<open>RetrievalError\<close>); the search itself is not part of the model.
\<close>

record env =
  classify :: "string \<Rightarrow> parsed llm_reply"
  retrieval :: "string \<Rightarrow> (Document list \<times> string list) option"
  judge :: "string \<Rightarrow> string \<Rightarrow> parsed llm_reply"
  grounded :: "string \<Rightarrow> string \<Rightarrow> string llm_reply"
  fallback :: "string \<Rightarrow> string \<Rightarrow> string llm_reply"
  validator :: "string \<Rightarrow> string \<Rightarrow> parsed llm_reply"

text \<open>The calls of the language model a stage makes, in order, with their inputs.\<close>

datatype llm_call =
    ClassifyCall string
  | JudgeCall string string
  | GroundedCall string string
  | FallbackCall string string
  | ValidatorCall string string

text \<open>
  A stage returns the calls it made and either the error it throws or the state with
  its update merged in (\<open>{...state, ...result}\<close>).
  Console logging and tracing spans are left out: they do not change the state.
\<close>

type_synonym node_result = "llm_call list \<times> (rag_error + RAGState)"

section \<open>Query validation (langgraph/nodes/queryValidation.ts)\<close>

definition domain_word_rx :: rx where
  "domain_word_rx = whole_word (alts [''pgpm'', ''spjimr'', ''mba''])"

definition fallbackRelevant :: "string \<Rightarrow> bool" where
  "fallbackRelevant q =
     (hasRelevantKeywords q \<or> rx_test domain_word_rx q \<or> length (trim q) \<le> 3 \<or>
      isKnownPGPMTerm q)"

definition queryValidationNode :: "env \<Rightarrow> RAGState \<Rightarrow> node_result" where
  "queryValidationNode e st =
     (let calls = [ClassifyCall (query st)] in
      case classify e (query st) of
        CallFailed msg \<Rightarrow> (calls, Inl (ValidationError ''Query validation failed''))
      | Content SyntaxError \<Rightarrow> (calls, Inl (ValidationError ''Failed to parse validation response''))
      | Content JsonNull \<Rightarrow> (calls, Inl (ValidationError ''Failed to parse validation response''))
      | Content (JsonValue f) \<Rightarrow>
          (let verdict = f ''isRelevant'';
               st1 = st\<lparr>isRelevant := js_or verdict (JBool (fallbackRelevant (query st))),
                        confidence := f ''confidence''\<rparr>
           in (calls, Inr (if truthy verdict then st1\<lparr>sources := []\<rparr> else st1))))"

section \<open>Context gate (langgraph/nodes/contextCheck.ts, retrieval.ts)\<close>

definition digit_char :: "nat \<Rightarrow> char" where
  "digit_char n = ''0123456789'' ! (n mod 10)"

fun show_nat :: "nat \<Rightarrow> string" where
  "show_nat n = (if n < 10 then [digit_char n] else show_nat (n div 10) @ [digit_char n])"

declare show_nat.simps [simp del]

text \<open>The documents joined into one text, each under its \<open>Document N:\<close> marker.\<close>

definition format_docs :: "Document list \<Rightarrow> string" where
  "format_docs docs =
     join ''\<newline>---\<newline>''
       (map (\<lambda>(i, d). ''Document '' @ show_nat (i + 1) @ '':\<newline>'' @ pageContent d)
            (enumerate 0 docs))"

definition baseThreshold :: real where
  "baseThreshold = 0.3"

definition specificQueries :: "(string list \<times> string list \<times> real) list" where
  "specificQueries =
     [([''fee'', ''cost'', ''price''], [''fee'', ''cost'', ''rs.'', ''rupees'', ''lakh''], 0.2),
      ([''duration'', ''length'', ''time''], [''month'', ''year'', ''duration''], 0.2),
      ([''eligibility'', ''requirement''], [''eligib'', ''require'', ''criteria''], 0.2),
      ([''deadline'', ''date''], [''deadline'', ''date'', ''last date''], 0.2),
      ([''salary'', ''package''], [''salary'', ''lpa'', ''package'', ''compensation''], 0.2),
      ([''admission'', ''application''], [''admission'', ''application'', ''apply''], 0.2),
      ([''curriculum'', ''subject'', ''course''], [''curriculum'', ''subject'', ''course'', ''module''], 0.2),
      ([''placement'', ''job'', ''career''], [''placement'', ''job'', ''career'', ''company''], 0.2)]"

definition entry_matches :: "string \<Rightarrow> string \<Rightarrow> (string list \<times> string list \<times> real) \<Rightarrow> bool" where
  "entry_matches queryLower contextLower entry =
     (case entry of (keywords, indicators, threshold) \<Rightarrow>
        list_ex (str_includes queryLower) keywords \<and>
        list_ex (str_includes contextLower) indicators)"

definition getAdaptiveConfidenceThreshold :: "string \<Rightarrow> string \<Rightarrow> real" where
  "getAdaptiveConfidenceThreshold q contextContent =
     (case find (entry_matches (toLowerCase q) (toLowerCase contextContent)) specificQueries of
        Some (keywords, indicators, threshold) \<Rightarrow> threshold
      | None \<Rightarrow> baseThreshold)"

definition contextCheckNode :: "env \<Rightarrow> RAGState \<Rightarrow> node_result" where
  "contextCheckNode e st =
     (if retrievedDocs st = []
      then ([], Inr (st\<lparr>hasAnswer := JBool False, context' := [], confidence := JNum 0\<rparr>))
      else
        (let docsContent = format_docs (retrievedDocs st);
             calls = [JudgeCall docsContent (query st)] in
         case judge e docsContent (query st) of
           CallFailed msg \<Rightarrow> (calls, Inl (ValidationError ''Context validation failed''))
         | Content SyntaxError \<Rightarrow>
             (calls, Inl (ValidationError ''Failed to parse context validation response''))
         | Content JsonNull \<Rightarrow>
             (calls, Inl (ValidationError ''Failed to parse context validation response''))
         | Content (JsonValue f) \<Rightarrow>
             (let confidenceThreshold = getAdaptiveConfidenceThreshold (query st) docsContent;
                  finalHasAnswer =
                    js_and (f ''hasAnswer'')
                      (JBool (js_ge (f ''confidence'') confidenceThreshold))
              in (calls, Inr (st\<lparr>hasAnswer := finalHasAnswer,
                                   context' := (if truthy finalHasAnswer then docsContent else []),
                                   confidence := f ''confidence''\<rparr>)))))"

section \<open>Answer generation (langgraph/nodes/generation.ts)\<close>

definition has_fee_info :: "Document \<Rightarrow> bool" where
  "has_fee_info d =
     (let content = toLowerCase (pageContent d) in
      str_includes content ''fee'' \<or> str_includes content ''cost'' \<or>
      str_includes content ''rs.'' \<or> str_includes content ''lakh'' \<or>
      str_includes content ''rupees'')"

definition has_social_info :: "Document \<Rightarrow> bool" where
  "has_social_info d =
     (let content = toLowerCase (pageContent d) in
      str_includes content ''abhyudaya'' \<or> str_includes content ''docc'' \<or>
      str_includes content ''social'' \<or> str_includes content ''community'' \<or>
      str_includes content ''underprivileged'' \<or> str_includes content ''citizenship'')"

definition isFollowUp_rx :: rx where
  "isFollowUp_rx =
     anchored (Or (alts [''longer'', ''more'', ''elaborate'', ''tell me more'', ''expand''])
                (Or (Cat (Lit ''detail'') (Opt (Lit ''s'')))
                    (alts [''what else'', ''any other'', ''additional''])))"

definition isStatsQuery_rx :: rx where
  "isStatsQuery_rx =
     whole_word (Or (Cat (Lit ''stat'') (Opt (Lit ''s'')))
                  (alts [''statistics'', ''data'', ''numbers'', ''figures'', ''all data'',
                         ''give me all'', ''show me all'', ''tell me all'']))"

definition isBroadQuery_rx :: rx where
  "isBroadQuery_rx =
     anchored (alts [''everything'', ''tell me everything'', ''all information'',
                     ''complete'', ''comprehensive'', ''full''])"

definition wantsDuration_rx :: rx where
  "wantsDuration_rx =
     whole_word (Or (alts [''duration'', ''how long''])
                  (Or (Cat (Lit ''month'') (Opt (Lit ''s''))) (Lit ''length'')))"

definition wantsSocial_rx :: rx where
  "wantsSocial_rx =
     whole_word (Or (Lit ''abhyudaya'')
                  (Or (Cat (Lit ''social'') (Cat Spaces (Lit ''work'')))
                  (Or (Cat (Lit ''social'') (Cat Spaces (Lit ''projects'')))
                      (alts [''docc'', ''underprivileged'', ''community'']))))"

definition month_rx :: rx where
  "month_rx =
     Cat (Lit ''1'') (Cat (Cls ''58'') (Cat Spaces (Cat (Opt (Lit ''-'')) (Lit ''month''))))"

text \<open>
  \<open>docs.map(d => d.pageContent.match(/(1[58])\s*-?month/gi)).flat().filter(Boolean)[0]\<close>:
  each document gives the array of its matched texts or \<open>null\<close>; \<open>flat()\<close> splices
  the arrays and keeps the \<open>null\<close>s; \<open>filter(Boolean)\<close> drops the \<open>null\<close>s (and
  empty strings); \<open>[0]\<close> is the first element, a string, or \<open>undefined\<close>
  (\<open>None\<close>).
\<close>

definition flat_matches :: "string list option list \<Rightarrow> string option list" where
  "flat_matches ms = concat (map (\<lambda>m. case m of None \<Rightarrow> [None] | Some xs \<Rightarrow> map Some xs) ms)"

definition monthMatch :: "Document list \<Rightarrow> string option" where
  "monthMatch docs =
     (case filter (\<lambda>x. case x of None \<Rightarrow> False | Some s \<Rightarrow> s \<noteq> [])
             (flat_matches (map (\<lambda>d. match_g month_rx (pageContent d)) docs)) of
        [] \<Rightarrow> None
      | x # xs \<Rightarrow> x)"

text \<open>
  The synthesized duration answer. \<open>monthMatch\<close> is a string, so \<open>monthMatch[0]\<close> is
  the string of its first character, and that is what \<open>/18/\<close> is tested on.
\<close>

definition duration_answer :: "string \<Rightarrow> RAGState \<Rightarrow> RAGState" where
  "duration_answer m st =
     (let is18 = rx_test (Lit ''18'') (take 1 m);
          months = (if is18 then ''18 months'' else ''15 months'')
      in st\<lparr>response := ''The SPJIMR PGPM is '' @ months @
                ''. It includes 2 months online, 12 months on-campus, and 4 months for social/start-up projects and international immersion. Please verify with SPJIMR for the latest details.'',
             needsValidation := False,
             confidence := JNum (if is18 then 0.9 else 0.6)\<rparr>)"

text \<open>
  The outer \<open>catch\<close> of the stage: any error that is not a \<open>GenerationError\<close>
  (here: a failed call of the model) becomes the fixed template at confidence 0.1.
\<close>

definition generation_failed :: "string \<Rightarrow> RAGState \<Rightarrow> RAGState" where
  "generation_failed msg st =
     st\<lparr>response := VERIFICATION_FAILED, needsValidation := False,
        confidence := JNum 0.1, errorMessage := Some msg\<rparr>"

text \<open>Grounded generation from all retrieved documents, at a fixed confidence.\<close>

definition salvage :: "env \<Rightarrow> RAGState \<Rightarrow> real \<Rightarrow> node_result" where
  "salvage e st conf =
     (let contextText = format_docs (retrievedDocs st);
          calls = [GroundedCall contextText (query st)] in
      case grounded e contextText (query st) of
        CallFailed msg \<Rightarrow> (calls, Inr (generation_failed msg st))
      | Content r \<Rightarrow>
          (calls, Inr (st\<lparr>response := r, needsValidation := True, confidence := JNum conf\<rparr>)))"

definition graceful_non_answer :: "env \<Rightarrow> RAGState \<Rightarrow> node_result" where
  "graceful_non_answer e st =
     (let reason = ''Insufficient information in knowledge base'';
          calls = [FallbackCall (query st) reason] in
      case fallback e (query st) reason of
        Content r \<Rightarrow>
          (calls, Inr (st\<lparr>response := r, needsValidation := False, confidence := JNum 0.3\<rparr>))
      | CallFailed msg \<Rightarrow>
          (calls, Inr (st\<lparr>response := NO_INFORMATION, needsValidation := False,
                          confidence := JNum 0.2\<rparr>)))"

text \<open>Case 2 of the stage: no sufficient information, with the salvage branches in order.\<close>

definition no_answer_case :: "env \<Rightarrow> RAGState \<Rightarrow> node_result" where
  "no_answer_case e st =
     (let queryLower = toLowerCase (query st);
          docs = retrievedDocs st;
          isFollowUp = rx_test isFollowUp_rx (trim (query st));
          isStatsQuery = rx_test isStatsQuery_rx (query st);
          isBroadQuery = rx_test isBroadQuery_rx (trim (query st));
          wantsDuration = rx_test wantsDuration_rx (query st);
          wantsSocial = rx_test wantsSocial_rx (query st)
      in
      if (str_includes queryLower ''fee'' \<or> str_includes queryLower ''cost'') \<and> docs \<noteq> [] \<and>
         list_ex has_fee_info docs
      then salvage e st 0.7
      else if (isFollowUp \<or> isStatsQuery \<or> isBroadQuery) \<and> docs \<noteq> []
      then salvage e st 0.8
      else
        (case (if wantsDuration then monthMatch docs else None) of
           Some m \<Rightarrow> ([], Inr (duration_answer m st))
         | None \<Rightarrow>
             if wantsSocial \<and> docs \<noteq> [] \<and> list_ex has_social_info docs
             then salvage e st 0.75
             else graceful_non_answer e st))"

text \<open>Case 3: grounded generation from the context the gate kept.\<close>

definition grounded_case :: "env \<Rightarrow> RAGState \<Rightarrow> node_result" where
  "grounded_case e st =
     (let calls = [GroundedCall (context' st) (query st)] in
      case grounded e (context' st) (query st) of
        CallFailed msg \<Rightarrow> (calls, Inr (generation_failed msg st))
      | Content r \<Rightarrow>
          if r = [] \<or> length (trim r) < 20
          then (calls, Inl (GenerationError ''Generated response is too short or empty''))
          else (calls, Inr (st\<lparr>response := r, needsValidation := True,
                               confidence := js_or (confidence st) (JNum 0.8)\<rparr>)))"

definition generationNode :: "env \<Rightarrow> RAGState \<Rightarrow> node_result" where
  "generationNode e st =
     (if \<not> truthy (isRelevant st)
      then ([], Inr (st\<lparr>response := NOT_RELEVANT, needsValidation := False,
                        confidence := JNum 1\<rparr>))
      else if \<not> truthy (hasAnswer st) \<or> context' st = [] \<or> trim (context' st) = []
      then no_answer_case e st
      else grounded_case e st)"

section \<open>Response validation (langgraph/nodes/responseValidation.ts)\<close>

definition responseValidationNode :: "env \<Rightarrow> RAGState \<Rightarrow> node_result" where
  "responseValidationNode e st =
     (if \<not> needsValidation st
      then ([], Inr (st\<lparr>response := response st, needsValidation := False\<rparr>))
      else if response st = [] \<or> context' st = []
      then ([], Inr (st\<lparr>response := VERIFICATION_FAILED, needsValidation := False,
                        confidence := JNum 0.1\<rparr>))
      else
        (let calls = [ValidatorCall (context' st) (response st)] in
         case validator e (context' st) (response st) of
           CallFailed msg \<Rightarrow>
             (calls, Inr (st\<lparr>response := VERIFICATION_FAILED, needsValidation := False,
                             confidence := JNum 0.1, errorMessage := Some msg\<rparr>))
         | Content SyntaxError \<Rightarrow>
             (calls, Inl (ValidationError ''Failed to parse validation response''))
         | Content JsonNull \<Rightarrow>
             (calls, Inl (ValidationError ''Failed to parse validation response''))
         | Content (JsonValue f) \<Rightarrow>
             (calls, Inr (st\<lparr>response := response st, needsValidation := False,
                             confidence := js_max 0.8 (js_or (confidence st) (JNum 0.8))\<rparr>))))"

section \<open>Pipeline (langgraph/workflow.ts)\<close>

definition retrievalNode :: "env \<Rightarrow> RAGState \<Rightarrow> node_result" where
  "retrievalNode e st =
     (case retrieval e (query st) of
        None \<Rightarrow> ([], Inl (RetrievalError ''Document retrieval failed''))
      | Some (docs, srcs) \<Rightarrow> ([], Inr (st\<lparr>retrievedDocs := docs, sources := srcs\<rparr>)))"

definition initial_state :: "string \<Rightarrow> RAGState" where
  "initial_state q =
     \<lparr>query = q, isRelevant = JBool False, retrievedDocs = [], hasAnswer = JBool False,
      context' = [], response = [], needsValidation = False, confidence = JNum 0,
      sources = [], errorMessage = None\<rparr>"

fun error_message :: "rag_error \<Rightarrow> string" where
  "error_message (ValidationError m) = m"
| "error_message (RetrievalError m) = m"
| "error_message (GenerationError m) = m"

definition error_state :: "string \<Rightarrow> rag_error \<Rightarrow> RAGState" where
  "error_state q err =
     \<lparr>query = q, isRelevant = JBool False, retrievedDocs = [], hasAnswer = JBool False,
      context' = [],
      response = ''I apologize, but I encountered an error while processing your question. Please try again or contact SPJIMR directly for assistance.'',
      needsValidation = False, confidence = JNum 0.1, sources = [],
      errorMessage = Some (error_message err)\<rparr>"

text \<open>Sequencing: a stage that throws ends the run; the calls made add up.\<close>

definition then_node :: "node_result \<Rightarrow> (RAGState \<Rightarrow> node_result) \<Rightarrow> node_result" where
  "then_node r f =
     (case r of
        (cs, Inl err) \<Rightarrow> (cs, Inl err)
      | (cs, Inr st) \<Rightarrow> (case f st of (cs', x) \<Rightarrow> (cs @ cs', x)))"

text \<open>
  The \<open>try\<close> block of \<open>executeRAGWorkflowFallback\<close>: validation; retrieval and the
  context gate only for a relevant query; generation. Step 5 is a comment in the source
  (response validation is disabled), so the block ends with the generation stage.
\<close>

definition run_stages :: "env \<Rightarrow> string \<Rightarrow> node_result" where
  "run_stages e q =
     then_node
       (then_node (queryValidationNode e (initial_state q))
          (\<lambda>st. if truthy (isRelevant st)
                then then_node (retrievalNode e st) (contextCheckNode e)
                else ([], Inr st)))
       (generationNode e)"

definition executeRAGWorkflowFallback :: "env \<Rightarrow> string \<Rightarrow> llm_call list \<times> RAGState" where
  "executeRAGWorkflowFallback e q =
     (case run_stages e q of
        (cs, Inl err) \<Rightarrow> (cs, error_state q err)
      | (cs, Inr st) \<Rightarrow> (cs, st))"

text \<open>\<open>workflow.invoke(state)\<close> runs the fallback on \<open>state.query || ""\<close>.\<close>

definition workflow_invoke :: "env \<Rightarrow> RAGState \<Rightarrow> llm_call list \<times> RAGState" where
  "workflow_invoke e st = executeRAGWorkflowFallback e (query st)"

section \<open>Streaming endpoint (server.ts, handleStreamingChat)\<close>

text \<open>
  The frames written to the response, by their \<open>type\<close> tag: \<open>connected\<close> (session
  id, time), \<open>status\<close> (message), \<open>token\<close> (content), \<open>complete\<close> (answer,
  confidence, sources, number of retrieved documents), \<open>error\<close> (error text, details
  in development mode only), \<open>end\<close>, \<open>ping\<close> (time).
\<close>

datatype event =
    Connected string nat
  | Status string
  | Token string
  | Complete string js "string list" nat
  | ErrorEvent string "string option"
  | End
  | Ping nat

text \<open>
  What the handler does to the response of a stream: \<open>res.write\<close> of a frame, and
  \<open>res.end()\<close>, which closes the connection.
\<close>

datatype res_action = Frame event | Close

text \<open>
  What the client gets: a JSON error response with its status and code, or the event
  stream.
\<close>

datatype http_response = JsonError nat string | EventStream

text \<open>
  The request: \<open>body.question\<close> when it is a string (\<open>None\<close> when it is absent or
  of another type) and the session id the session middleware attached.
\<close>

record request =
  req_question :: "string option"
  req_sessionId :: string

text \<open>
  JavaScript runs the handler on one thread: between the write of \<open>connected\<close> and the
  \<open>await\<close> of the workflow, and from the return of the workflow to \<open>clearInterval\<close>,
  no callback can run. While the handler awaits the workflow, the model streams tokens
  to \<open>streamCallback\<close> and the keep-alive timer may fire; \<open>ticks\<close> is what happens
  then, in order.
\<close>

datatype tick = TokenTick string | PingTick nat

fun tick_event :: "tick \<Rightarrow> event" where
  "tick_event (TokenTick tok) = Token tok"
| "tick_event (PingTick time) = Ping time"

fun tick_text :: "tick \<Rightarrow> string" where
  "tick_text (TokenTick tok) = tok"
| "tick_text (PingTick time) = []"

text \<open>
  The surroundings of one streaming request: the services of the pipeline, the ticks,
  the clock at the start and at the end, and whether the server runs in development
  mode.
\<close>

record stream_env =
  services :: env
  ticks :: "tick list"
  started :: nat
  finished :: nat
  development :: bool

text \<open>
  The answer and the confidence of the \<open>complete\<close> frame and of the stored turn:
  \<open>result.response || fullResponse\<close>, where \<open>fullResponse\<close> is the tokens streamed,
  and \<open>result.confidence || 0.7\<close>.
\<close>

definition final_answer :: "tick list \<Rightarrow> RAGState \<Rightarrow> string" where
  "final_answer ts result =
     (if response result \<noteq> [] then response result else concat (map tick_text ts))"

definition final_confidence :: "RAGState \<Rightarrow> js" where
  "final_confidence result = js_or (confidence result) (JNum 0.7)"

text \<open>
  Everything written to an opened stream, given the outcome of awaiting
  \<open>workflow.invoke\<close>: \<open>Inr result\<close> when it resolves, \<open>Inl text\<close> when it rejects
  with an error that prints as \<open>text\<close>. The \<open>connected\<close> and \<open>status\<close> frames come
  first, then the frames of the ticks; the \<open>try\<close> block ends with the \<open>complete\<close>
  frame, and its \<open>catch\<close> writes the \<open>error\<close> frame instead; after either, the
  \<open>end\<close> frame is written and the response is ended.
\<close>

definition stream_outputs :: "string \<Rightarrow> stream_env \<Rightarrow> string + RAGState \<Rightarrow> res_action list" where
  "stream_outputs sessionId se outcome =
     [Frame (Connected sessionId (started se)), Frame (Status ''Processing query...'')] @
     map (\<lambda>t. Frame (tick_event t)) (ticks se) @
     [Frame (case outcome of
               Inr result \<Rightarrow>
                 Complete (final_answer (ticks se) result) (final_confidence result)
                   (sources result) (length (retrievedDocs result))
             | Inl err \<Rightarrow>
                 ErrorEvent ''Failed to process streaming query''
                   (if development se then Some err else None)),
      Frame End,
      Close]"

text \<open>
  The handler. A question that is missing, not a string or empty is answered with the
  JSON error 400, and a request before the workflow is initialised with 503, before
  anything is written to a stream. Otherwise the stream is opened. The workflow of this
  repository resolves in every case, because \<open>executeRAGWorkflowFallback\<close> catches the
  error of any stage and returns a state; so the outcome is always \<open>Inr\<close>, and the turn
  is added to the session's memory.
\<close>

definition handleStreamingChat ::
  "bool \<Rightarrow> stream_env \<Rightarrow> request \<Rightarrow> ConversationMemory \<Rightarrow>
   http_response \<times> res_action list \<times> ConversationMemory" where
  "handleStreamingChat workflow_ready se rq conversationMemory =
     (case req_question rq of
        None \<Rightarrow> (JsonError 400 ''INVALID_QUESTION'', [], conversationMemory)
      | Some qn \<Rightarrow>
          if qn = [] then (JsonError 400 ''INVALID_QUESTION'', [], conversationMemory)
          else if \<not> workflow_ready
          then (JsonError 503 ''WORKFLOW_NOT_READY'', [], conversationMemory)
          else
            (let compositeQuestion = buildCompositeQuery qn conversationMemory;
                 result = snd (workflow_invoke (services se)
                                 (initial_state (trim compositeQuestion)))
             in (EventStream,
                 stream_outputs (req_sessionId rq) se (Inr result),
                 addTurn (finished se)
                   \<lparr>question = qn, answer = final_answer (ticks se) result,
                    turn_confidence = final_confidence result,
                    turn_sources = sources result\<rparr>
                   conversationMemory)))"

text \<open>The tag of a frame, and the tags a stream may carry between its ends.\<close>

datatype event_kind = KConnected | KStatus | KToken | KComplete | KError | KEnd | KPing

fun kind :: "event \<Rightarrow> event_kind" where
  "kind (Connected sid time) = KConnected"
| "kind (Status msg) = KStatus"
| "kind (Token tok) = KToken"
| "kind (Complete ans conf srcs n) = KComplete"
| "kind (ErrorEvent err details) = KError"
| "kind End = KEnd"
| "kind (Ping time) = KPing"

definition progress_kind :: "event_kind \<Rightarrow> bool" where
  "progress_kind k = (k = KStatus \<or> k = KToken \<or> k = KPing)"

text \<open>How many frames of a stream carry a given tag.\<close>

text \<open>The frames among the actions on the response, in order.\<close>

fun frames :: "res_action list \<Rightarrow> event list" where
  "frames [] = []"
| "frames (Frame ev # outs) = ev # frames outs"
| "frames (Close # outs) = frames outs"

definition count_kind :: "event_kind \<Rightarrow> event list \<Rightarrow> nat" where
  "count_kind k evs = length (filter (\<lambda>ev. kind ev = k) evs)"

section \<open>Concrete inputs\<close>

text \<open>
  An object literal as the decoded reply of the model, a retrieved document, and an
  environment in which the classifier accepts the query, retrieval returns one
  document on fees, and the judge finds no answer in it.
\<close>

definition json_object :: "(string \<times> js) list \<Rightarrow> parsed" where
  "json_object ps = JsonValue (\<lambda>name. case map_of ps name of None \<Rightarrow> JUndefined | Some v \<Rightarrow> v)"

definition fee_doc :: Document where
  "fee_doc = \<lparr>pageContent = ''PGPM fee structure. The fee below is indicative and is subject to revision. Total fee 21,00,000'', source = ''fees.md''\<rparr>"

definition env0 :: env where
  "env0 =
     \<lparr>classify = (\<lambda>q. Content (json_object [(''isRelevant'', JBool True), (''confidence'', JNum 0.9)])),
      retrieval = (\<lambda>q. Some ([fee_doc], [''fees.md''])),
      judge = (\<lambda>d q. Content (json_object [(''hasAnswer'', JBool False), (''confidence'', JNum 0.1)])),
      grounded = (\<lambda>c q. Content ''The total PGPM fee is 21,00,000. Please verify with SPJIMR.''),
      fallback = (\<lambda>q r. Content ''We do not have that information; please contact SPJIMR.''),
      validator = (\<lambda>c r. Content (json_object [(''isValid'', JBool True), (''confidence'', JNum 0.9)]))\<rparr>"

definition env_not_relevant :: env where
  "env_not_relevant =
     env0\<lparr>classify := (\<lambda>q. Content (json_object [(''isRelevant'', JBool False), (''confidence'', JNum 0.9)]))\<rparr>"

definition env_judge_yes :: env where
  "env_judge_yes =
     env0\<lparr>judge := (\<lambda>d q. Content (json_object [(''hasAnswer'', JBool True), (''confidence'', JNum 0.25)]))\<rparr>"

text \<open>The state that reaches the context gate for the question on fees.\<close>

definition fee_gate_state :: RAGState where
  "fee_gate_state =
     (initial_state ''what are the fees'')
       \<lparr>isRelevant := JBool True, retrievedDocs := [fee_doc], confidence := JNum 0.9,
        sources := [''fees.md'']\<rparr>"

definition sample_turn :: turn_input where
  "sample_turn =
     \<lparr>question = ''What is the admission process?'', answer = ''Admissions are rolling.'',
      turn_confidence = JNum 0.8, turn_sources = [''admissions.md'']\<rparr>"

definition ten_turns :: "mem_op list" where
  "ten_turns =
     [AddTurn 1 sample_turn, AddTurn 2 sample_turn, AddTurn 3 sample_turn,
      AddTurn 4 sample_turn, AddTurn 5 sample_turn, AddTurn 6 sample_turn,
      AddTurn 7 sample_turn, AddTurn 8 sample_turn, AddTurn 9 sample_turn,
      AddTurn 10 sample_turn]"

definition duration_doc :: Document where
  "duration_doc =
     \<lparr>pageContent = ''SPJIMR's Post Graduate Programme in Management (PGPM) is an 18-month AICTE-approved General Management programme.'',
      source = ''overview.md''\<rparr>"

text \<open>
  The state that reaches generation for \<open>How long is PGPM?\<close> when retrieval found the
  overview document and the gate found the context insufficient.
\<close>

definition duration_state :: RAGState where
  "duration_state =
     (initial_state ''How long is PGPM?'')
       \<lparr>isRelevant := JBool True, retrievedDocs := [duration_doc], confidence := JNum 0.1,
        sources := [''overview.md'']\<rparr>"

definition env_duration :: env where
  "env_duration = env0\<lparr>retrieval := (\<lambda>q. Some ([duration_doc], [''overview.md'']))\<rparr>"

text \<open>
  A session with one earlier turn on admissions, the composite query the follow-up
  \<open>tell me more\<close> gets in it, and the state that reaches generation for it when one
  document was retrieved and the gate found the context insufficient.
\<close>

definition one_turn_memory :: ConversationMemory where
  "one_turn_memory = run_mem_ops [AddTurn 1 sample_turn]"

definition followup_composite :: string where
  "followup_composite =
     ''Previous conversation context:\<newline>Q: What is the admission process?\<newline>A: Admissions are rolling.\<newline>\<newline>Current user request: tell me more\<newline>\<newline>Note: This appears to be a follow-up query asking for more detailed information about the previously discussed SPJIMR PGPM topics.''"

definition followup_state :: RAGState where
  "followup_state =
     (initial_state (buildCompositeQuery ''tell me more'' one_turn_memory))
       \<lparr>isRelevant := JBool True, retrievedDocs := [fee_doc], confidence := JNum 0.1,
        sources := [''fees.md'']\<rparr>"

text \<open>Replies of the model that are JSON but not what the prompts ask for: a confidence
  out of range, and an object without the fields.\<close>

definition env_confidence_5 :: env where
  "env_confidence_5 =
     env0\<lparr>classify := (\<lambda>q. Content (json_object [(''isRelevant'', JBool True), (''confidence'', JNum 5)]))\<rparr>"

definition env_empty_object :: env where
  "env_empty_object =
     env0\<lparr>classify := (\<lambda>q. Content (json_object [])),
          judge := (\<lambda>d q. Content (json_object []))\<rparr>"

text \<open>A state with a grounded answer on which validation was requested.\<close>

definition answered_state :: RAGState where
  "answered_state =
     fee_gate_state
       \<lparr>hasAnswer := JBool True, context' := ''Document 1:\<newline>PGPM fee structure. The fee below is indicative and is subject to revision. Total fee 21,00,000'',
        response := ''The total PGPM fee is 21,00,000. Please verify with SPJIMR.'',
        needsValidation := True, confidence := JNum 0.25\<rparr>"

text \<open>The surroundings of a streaming request: two tokens and a ping in between.\<close>

definition stream_env0 :: stream_env where
  "stream_env0 =
     \<lparr>services = env0,
      ticks = [TokenTick ''The total'', PingTick 15, TokenTick '' PGPM fee''],
      started = 0, finished = 20, development = False\<rparr>"

text \<open>The final state of the pipeline for the question on fees in \<open>env0\<close>.\<close>

definition fee_final_state :: RAGState where
  "fee_final_state =
     \<lparr>query = ''what are the fees'', isRelevant = JBool True, retrievedDocs = [fee_doc],
      hasAnswer = JBool False, context' = [],
      response = ''The total PGPM fee is 21,00,000. Please verify with SPJIMR.'',
      needsValidation = True, confidence = JNum 0.7, sources = [''fees.md''],
      errorMessage = None\<rparr>"

text \<open>A request of session \<open>s1\<close> with the question on fees.\<close>

definition fees_request :: request where
  "fees_request = \<lparr>req_question = Some ''what are the fees'', req_sessionId = ''s1''\<rparr>"

text \<open>
  A classifier whose reply is not JSON, so that query validation throws, and the
  surroundings of a streaming request served by it.
\<close>

definition env_not_json :: env where
  "env_not_json = env0\<lparr>classify := (\<lambda>q. Content SyntaxError)\<rparr>"

definition stream_env_failed_stage :: stream_env where
  "stream_env_failed_stage =
     \<lparr>services = env_not_json, ticks = [PingTick 15], started = 0, finished = 20,
      development = False\<rparr>"

section \<open>Properties of the conversation memory\<close>

lemma addTurn_history:
  "history (addTurn now t m) =
     (if length (history m) < maxHistoryLength then history m @ [stamp now t]
      else tl (history m @ [stamp now t]))"
  by (simp add: addTurn_def Let_def)

lemma addTurn_length_le:
  "length (history m) \<le> maxHistoryLength \<Longrightarrow> length (history (addTurn now t m)) \<le> maxHistoryLength"
  by (simp add: addTurn_history)

lemma foldl_mem_ops_length_le:
  "length (history m) \<le> maxHistoryLength \<Longrightarrow>
   length (history (foldl apply_mem_op m ops)) \<le> maxHistoryLength"
proof (induction ops arbitrary: m)
  case Nil
  then show ?case by simp
next
  case (Cons x ops)
  have "length (history (apply_mem_op m x)) \<le> maxHistoryLength"
  proof (cases x)
    case (AddTurn now t)
    then show ?thesis using Cons.prems by (simp add: addTurn_length_le)
  next
    case Clear
    then show ?thesis by (simp add: clear_def)
  qed
  then show ?case using Cons.IH by simp
qed

lemma run_mem_ops_length_le: "length (history (run_mem_ops ops)) \<le> maxHistoryLength"
  unfolding run_mem_ops_def
  by (rule foldl_mem_ops_length_le) (simp add: new_memory_def)

text \<open>
  Claim C8. After any sequence of \<open>addTurn\<close> (and \<open>clear\<close>) operations on a fresh
  memory the history holds at most 10 turns; and an insertion into a memory reached this
  way appends the new turn at the end, keeping the stored turns in their order, and,
  once the history is at capacity (10 turns), drops exactly the oldest one (the head).
\<close>

theorem C8_history_bounded_fifo:
  "length (history (run_mem_ops ops)) \<le> 10 \<and>
   history (addTurn now t (run_mem_ops ops)) =
     (if length (history (run_mem_ops ops)) = 10
      then tl (history (run_mem_ops ops)) @ [stamp now t]
      else history (run_mem_ops ops) @ [stamp now t])"
proof -
  have le: "length (history (run_mem_ops ops)) \<le> 10"
    using run_mem_ops_length_le [of ops] by (simp add: maxHistoryLength_def)
  show ?thesis
  proof (cases "length (history (run_mem_ops ops)) = 10")
    case True
    then have "history (run_mem_ops ops) \<noteq> []" by auto
    then show ?thesis using le True by (simp add: addTurn_history maxHistoryLength_def)
  next
    case False
    then show ?thesis using le by (simp add: addTurn_history maxHistoryLength_def)
  qed
qed

theorem C8_witness:
  "history (addTurn 11 sample_turn (run_mem_ops ten_turns)) =
     [stamp 2 sample_turn, stamp 3 sample_turn, stamp 4 sample_turn, stamp 5 sample_turn,
      stamp 6 sample_turn, stamp 7 sample_turn, stamp 8 sample_turn, stamp 9 sample_turn,
      stamp 10 sample_turn, stamp 11 sample_turn]"
proof -
  have run: "history (run_mem_ops ten_turns) =
     [stamp 1 sample_turn, stamp 2 sample_turn, stamp 3 sample_turn, stamp 4 sample_turn,
      stamp 5 sample_turn, stamp 6 sample_turn, stamp 7 sample_turn, stamp 8 sample_turn,
      stamp 9 sample_turn, stamp 10 sample_turn]"
    by (simp add: ten_turns_def run_mem_ops_def new_memory_def addTurn_def maxHistoryLength_def)
  from C8_history_bounded_fifo [of ten_turns 11 sample_turn] show ?thesis
    unfolding run by simp
qed

section \<open>Properties of the relevance gate and the context gate\<close>

lemma specificQueries_threshold:
  "(keywords, indicators, threshold) \<in> set specificQueries \<Longrightarrow> threshold = 0.2"
  by (auto simp: specificQueries_def)

lemma threshold_cases:
  "getAdaptiveConfidenceThreshold q c =
     (if list_ex (entry_matches (toLowerCase q) (toLowerCase c)) specificQueries then 0.2 else 0.3)"
proof (cases "find (entry_matches (toLowerCase q) (toLowerCase c)) specificQueries")
  case None
  then have "\<not> list_ex (entry_matches (toLowerCase q) (toLowerCase c)) specificQueries"
    by (auto simp: find_None_iff list_ex_iff)
  then show ?thesis
    using None by (simp add: getAdaptiveConfidenceThreshold_def baseThreshold_def)
next
  case (Some entry)
  obtain kws inds thr where entry: "entry = (kws, inds, thr)"
    by (cases entry) auto
  from Some have mem: "entry \<in> set specificQueries"
    and holds: "entry_matches (toLowerCase q) (toLowerCase c) entry"
    by (auto simp: find_Some_iff)
  have "thr = 0.2"
    using mem entry specificQueries_threshold by blast
  moreover have "list_ex (entry_matches (toLowerCase q) (toLowerCase c)) specificQueries"
    using mem holds by (auto simp: list_ex_iff)
  ultimately show ?thesis
    using Some entry by (simp add: getAdaptiveConfidenceThreshold_def)
qed

lemma format_docs_nonempty:
  assumes "docs \<noteq> []"
  shows "format_docs docs \<noteq> []"
proof -
  obtain d ds where docs: "docs = d # ds"
    using assms by (cases docs) auto
  show ?thesis
    unfolding docs format_docs_def by (cases ds) simp_all
qed

lemma queryValidationNode_ok:
  assumes "queryValidationNode e st = (calls, Inr st')"
  obtains f where "classify e (query st) = Content (JsonValue f)"
    and "st' = (if truthy (f ''isRelevant'')
                then st\<lparr>isRelevant := js_or (f ''isRelevant'') (JBool (fallbackRelevant (query st))),
                        confidence := f ''confidence'', sources := []\<rparr>
                else st\<lparr>isRelevant := js_or (f ''isRelevant'') (JBool (fallbackRelevant (query st))),
                        confidence := f ''confidence''\<rparr>)"
proof (cases "classify e (query st)")
  case (CallFailed msg)
  then show ?thesis using assms by (simp add: queryValidationNode_def)
next
  case (Content p)
  show ?thesis
  proof (cases p)
    case SyntaxError
    then show ?thesis using assms Content by (simp add: queryValidationNode_def)
  next
    case JsonNull
    then show ?thesis using assms Content by (simp add: queryValidationNode_def)
  next
    case (JsonValue f)
    then show ?thesis using assms Content that [of f]
      by (simp add: queryValidationNode_def Let_def split: if_splits)
  qed
qed

text \<open>
  Claim C10. When query validation returns without error, the classifier's reply was
  decoded, \<open>isRelevant\<close> is \<open>verdict || fallbackRelevant\<close>, and it is truthy
  exactly when the verdict is truthy or the query has a domain keyword, matches the
  word pattern \<open>pgpm|spjimr|mba\<close>, is a known term, or has a trimmed length of at
  most 3. So each fallback condition alone marks the query relevant whatever the
  verdict, and a rejection needs all of them false.
\<close>

theorem C10_relevance_verdict_or_fallback:
  assumes "queryValidationNode e st = (calls, Inr st')"
  shows "\<exists>f. classify e (query st) = Content (JsonValue f) \<and>
           isRelevant st' = js_or (f ''isRelevant'') (JBool (fallbackRelevant (query st))) \<and>
           truthy (isRelevant st') =
             (truthy (f ''isRelevant'') \<or> hasRelevantKeywords (query st) \<or>
              rx_test domain_word_rx (query st) \<or> isKnownPGPMTerm (query st) \<or>
              length (trim (query st)) \<le> 3)"
proof -
  from assms obtain f where reply: "classify e (query st) = Content (JsonValue f)"
    and st': "st' = (if truthy (f ''isRelevant'')
                then st\<lparr>isRelevant := js_or (f ''isRelevant'') (JBool (fallbackRelevant (query st))),
                        confidence := f ''confidence'', sources := []\<rparr>
                else st\<lparr>isRelevant := js_or (f ''isRelevant'') (JBool (fallbackRelevant (query st))),
                        confidence := f ''confidence''\<rparr>)"
    by (rule queryValidationNode_ok)
  have rel: "isRelevant st' = js_or (f ''isRelevant'') (JBool (fallbackRelevant (query st)))"
    using st' by simp
  have "truthy (js_or (f ''isRelevant'') (JBool (fallbackRelevant (query st)))) =
          (truthy (f ''isRelevant'') \<or> fallbackRelevant (query st))"
    by (simp add: js_or_def)
  then have "truthy (isRelevant st') =
             (truthy (f ''isRelevant'') \<or> hasRelevantKeywords (query st) \<or>
              rx_test domain_word_rx (query st) \<or> isKnownPGPMTerm (query st) \<or>
              length (trim (query st)) \<le> 3)"
    unfolding rel fallbackRelevant_def by blast
  with reply rel show ?thesis by blast
qed

theorem C10_witness:
  "\<exists>calls st'. queryValidationNode env_not_relevant (initial_state ''mba'') = (calls, Inr st') \<and>
     length (trim ''mba'') \<le> 3 \<and> truthy (isRelevant st')"
proof -
  have run: "queryValidationNode env_not_relevant (initial_state ''mba'') =
      ([ClassifyCall ''mba''],
       Inr ((initial_state ''mba'')\<lparr>isRelevant := JBool True, confidence := JNum 0.9\<rparr>))"
    by (simp add: queryValidationNode_def env_not_relevant_def env0_def json_object_def
        initial_state_def js_or_def fallbackRelevant_def trim_def is_space_def)
  have len: "length (trim ''mba'') \<le> 3"
    by (simp add: trim_def is_space_def)
  from C10_relevance_verdict_or_fallback [OF run] len show ?thesis
    using run by auto
qed

text \<open>
  Claim C6. With no retrieved document the context gate returns \<open>hasAnswer = false\<close>,
  \<open>confidence = 0\<close> and the empty context, and makes no call of the judge (its list
  of calls is empty), in every environment.
\<close>

theorem C6_no_documents_no_judge_call:
  "retrievedDocs st = [] \<Longrightarrow>
   contextCheckNode e st =
     ([], Inr (st\<lparr>hasAnswer := JBool False, context' := [], confidence := JNum 0\<rparr>))"
  by (simp add: contextCheckNode_def)

theorem C6_witness:
  "contextCheckNode env0 (initial_state ''what are the fees'') =
     ([], Inr ((initial_state ''what are the fees'')
                 \<lparr>hasAnswer := JBool False, context' := [], confidence := JNum 0\<rparr>))"
proof -
  have "retrievedDocs (initial_state ''what are the fees'') = []"
    by (simp add: initial_state_def)
  from C6_no_documents_no_judge_call [OF this] show ?thesis .
qed

lemma fee_blob: "format_docs [fee_doc] = ''Document 1:\<newline>PGPM fee structure. The fee below is indicative and is subject to revision. Total fee 21,00,000''"
  by (simp add: fee_doc_def format_docs_def show_nat.simps digit_char_def)

text \<open>
  Claim C5. With at least one retrieved document and a decoded reply of the judge, the
  gate returns \<open>hasAnswer = judge.hasAnswer && judge.confidence >= threshold\<close> (for a
  boolean verdict and a numeric confidence: their conjunction), the context is the
  document blob exactly when that value is truthy and empty otherwise, and the
  confidence is the judge's own. The adaptive threshold is 0.2 when some table entry has
  a keyword in the query and an indicator in the context, and 0.3 otherwise; it is 0.2
  for the fees question over a context with \<open>Rs.\<close> and 0.3 for
  \<open>random question\<close> over the empty context.
\<close>

theorem C5_context_gate:
  assumes docs: "retrievedDocs st \<noteq> []"
    and reply: "judge e (format_docs (retrievedDocs st)) (query st) = Content (JsonValue f)"
  shows "(let blob = format_docs (retrievedDocs st);
              thr = getAdaptiveConfidenceThreshold (query st) blob;
              final = js_and (f ''hasAnswer'') (JBool (js_ge (f ''confidence'') thr))
          in contextCheckNode e st =
               ([JudgeCall blob (query st)],
                Inr (st\<lparr>hasAnswer := final,
                        context' := (if truthy final then blob else []),
                        confidence := f ''confidence''\<rparr>)) \<and>
             ((if truthy final then blob else []) = blob) = truthy final \<and>
             (\<forall>h c. f ''hasAnswer'' = JBool h \<and> f ''confidence'' = JNum c \<longrightarrow>
                    final = JBool (h \<and> thr \<le> c))) \<and>
         (\<forall>q c. getAdaptiveConfidenceThreshold q c =
                  (if list_ex (entry_matches (toLowerCase q) (toLowerCase c)) specificQueries
                   then 0.2 else 0.3)) \<and>
         getAdaptiveConfidenceThreshold ''what are the fees'' ''...Rs. 21,00,000...'' = 0.2 \<and>
         getAdaptiveConfidenceThreshold ''random question'' [] = 0.3"
proof -
  have blob: "format_docs (retrievedDocs st) \<noteq> []"
    using docs by (rule format_docs_nonempty)
  have node: "contextCheckNode e st =
      ([JudgeCall (format_docs (retrievedDocs st)) (query st)],
       Inr (st\<lparr>hasAnswer := js_and (f ''hasAnswer'') (JBool (js_ge (f ''confidence'')
                    (getAdaptiveConfidenceThreshold (query st) (format_docs (retrievedDocs st))))),
               context' := (if truthy (js_and (f ''hasAnswer'') (JBool (js_ge (f ''confidence'')
                    (getAdaptiveConfidenceThreshold (query st) (format_docs (retrievedDocs st))))))
                            then format_docs (retrievedDocs st) else []),
               confidence := f ''confidence''\<rparr>))"
    using docs reply by (simp add: contextCheckNode_def Let_def)
  have typed: "\<And>h c thr. f ''hasAnswer'' = JBool h \<Longrightarrow> f ''confidence'' = JNum c \<Longrightarrow>
      js_and (f ''hasAnswer'') (JBool (js_ge (f ''confidence'') thr)) = JBool (h \<and> thr \<le> c)"
    by (simp add: js_and_def js_ge_def)
  have e1: "getAdaptiveConfidenceThreshold ''what are the fees'' ''...Rs. 21,00,000...'' = 0.2"
    by code_simp
  have e2: "getAdaptiveConfidenceThreshold ''random question'' [] = 0.3"
    by code_simp
  show ?thesis
    unfolding Let_def using node blob typed threshold_cases e1 e2 by auto
qed

theorem C5_witness:
  "contextCheckNode env_judge_yes fee_gate_state =
     ([JudgeCall ''Document 1:\<newline>PGPM fee structure. The fee below is indicative and is subject to revision. Total fee 21,00,000'' ''what are the fees''],
      Inr (fee_gate_state\<lparr>hasAnswer := JBool True,
                            context' := ''Document 1:\<newline>PGPM fee structure. The fee below is indicative and is subject to revision. Total fee 21,00,000'',
                            confidence := JNum 0.25\<rparr>))"
proof -
  have docs: "retrievedDocs fee_gate_state \<noteq> []"
    by (simp add: fee_gate_state_def)
  have reply: "judge env_judge_yes (format_docs (retrievedDocs fee_gate_state)) (query fee_gate_state) =
      Content (JsonValue (\<lambda>name. case map_of [(''hasAnswer'', JBool True), (''confidence'', JNum 0.25)] name of
                                     None \<Rightarrow> JUndefined | Some v \<Rightarrow> v))"
    by (simp add: env_judge_yes_def env0_def json_object_def)
  have blob: "format_docs (retrievedDocs fee_gate_state) = ''Document 1:\<newline>PGPM fee structure. The fee below is indicative and is subject to revision. Total fee 21,00,000''"
    by (simp add: fee_gate_state_def fee_doc_def format_docs_def show_nat.simps digit_char_def)
  have q: "query fee_gate_state = ''what are the fees''"
    by (simp add: fee_gate_state_def initial_state_def)
  have thr: "getAdaptiveConfidenceThreshold ''what are the fees'' ''Document 1:\<newline>PGPM fee structure. The fee below is indicative and is subject to revision. Total fee 21,00,000'' = 0.2"
    by code_simp
  from C5_context_gate [OF docs reply] show ?thesis
    unfolding Let_def blob q thr by (simp add: js_and_def js_ge_def)
qed

section \<open>Properties of answer generation\<close>

lemma first_char_never_18: "rx_test (Lit ''18'') (take 1 m) = False"
  by (cases m) (simp_all add: rx_test_def)

lemma duration_answer_15:
  "duration_answer m st =
     st\<lparr>response := ''The SPJIMR PGPM is 15 months. It includes 2 months online, 12 months on-campus, and 4 months for social/start-up projects and international immersion. Please verify with SPJIMR for the latest details.'',
        needsValidation := False, confidence := JNum 0.6\<rparr>"
  unfolding duration_answer_def Let_def first_char_never_18 by simp

lemma how_long_no_fee: "str_includes (toLowerCase ''How long is PGPM?'') ''fee'' = False"
  by code_simp

lemma how_long_no_cost: "str_includes (toLowerCase ''How long is PGPM?'') ''cost'' = False"
  by code_simp

lemma how_long_not_followup: "rx_test isFollowUp_rx (trim ''How long is PGPM?'') = False"
  by code_simp

lemma how_long_not_stats: "rx_test isStatsQuery_rx ''How long is PGPM?'' = False"
  by code_simp

lemma how_long_not_broad: "rx_test isBroadQuery_rx (trim ''How long is PGPM?'') = False"
  by code_simp

lemma how_long_wants_duration: "rx_test wantsDuration_rx ''How long is PGPM?'' = True"
  by code_simp

lemma duration_doc_month_match: "monthMatch [duration_doc] = Some ''18-month''"
  by code_simp

lemma duration_generation_run:
  "generationNode e duration_state =
     ([], Inr (duration_state
        \<lparr>response := ''The SPJIMR PGPM is 15 months. It includes 2 months online, 12 months on-campus, and 4 months for social/start-up projects and international immersion. Please verify with SPJIMR for the latest details.'',
         needsValidation := False, confidence := JNum 0.6\<rparr>))"
proof -
  have q: "query duration_state = ''How long is PGPM?''"
    and docs: "retrievedDocs duration_state = [duration_doc]"
    and rel: "isRelevant duration_state = JBool True"
    and ha: "hasAnswer duration_state = JBool False"
    by (simp_all add: duration_state_def initial_state_def)
  show ?thesis
    by (simp add: generationNode_def no_answer_case_def Let_def q docs rel ha
        how_long_no_fee how_long_no_cost how_long_not_followup how_long_not_stats
        how_long_not_broad how_long_wants_duration duration_doc_month_match duration_answer_15)
qed

text \<open>
  The whole pipeline on \<open>How long is PGPM?\<close>, in the environment where the classifier
  accepts the query, retrieval returns the overview document and the judge finds no
  answer: the state that reaches generation is \<open>duration_state\<close>.
\<close>

lemma duration_pipeline_run:
  "executeRAGWorkflowFallback env_duration ''How long is PGPM?'' =
     ([ClassifyCall ''How long is PGPM?'',
       JudgeCall (format_docs [duration_doc]) ''How long is PGPM?''],
      duration_state
        \<lparr>response := ''The SPJIMR PGPM is 15 months. It includes 2 months online, 12 months on-campus, and 4 months for social/start-up projects and international immersion. Please verify with SPJIMR for the latest details.'',
         needsValidation := False, confidence := JNum 0.6\<rparr>)"
proof -
  have s1: "queryValidationNode env_duration (initial_state ''How long is PGPM?'') =
      ([ClassifyCall ''How long is PGPM?''],
       Inr ((initial_state ''How long is PGPM?'')
              \<lparr>isRelevant := JBool True, confidence := JNum 0.9, sources := []\<rparr>))"
    by (simp add: queryValidationNode_def env_duration_def env0_def json_object_def js_or_def
        initial_state_def)
  have s2: "retrievalNode env_duration ((initial_state ''How long is PGPM?'')
              \<lparr>isRelevant := JBool True, confidence := JNum 0.9, sources := []\<rparr>) =
      ([], Inr ((initial_state ''How long is PGPM?'')
              \<lparr>isRelevant := JBool True, retrievedDocs := [duration_doc],
               confidence := JNum 0.9, sources := [''overview.md'']\<rparr>))"
    by (simp add: retrievalNode_def env_duration_def env0_def initial_state_def)
  have s3: "contextCheckNode env_duration ((initial_state ''How long is PGPM?'')
              \<lparr>isRelevant := JBool True, retrievedDocs := [duration_doc],
               confidence := JNum 0.9, sources := [''overview.md'']\<rparr>) =
      ([JudgeCall (format_docs [duration_doc]) ''How long is PGPM?''], Inr duration_state)"
    by (simp add: contextCheckNode_def initial_state_def env_duration_def env0_def
        json_object_def js_and_def Let_def duration_state_def)
  show ?thesis
    by (simp add: executeRAGWorkflowFallback_def run_stages_def then_node_def
        s1 s2 s3 duration_generation_run)
qed

text \<open>
  Claim C9 (the code differs). For \<open>How long is PGPM?\<close> with a retrieved document
  that contains \<open>18-month\<close> and no sufficient context, the generator makes no call of
  the model and returns the templated answer, but the answer says \<open>15 months\<close> at
  confidence 0.6: \<open>monthMatch\<close> is the matched string, \<open>monthMatch[0]\<close> its first
  character, and \<open>/18/\<close> never matches one character. So whatever matched, the
  synthesized answer is the 15-month one at 0.6; the whole pipeline ends with it.
\<close>

theorem C9_duration_answer_is_always_15_months:
  "generationNode e duration_state =
     ([], Inr (duration_state
        \<lparr>response := ''The SPJIMR PGPM is 15 months. It includes 2 months online, 12 months on-campus, and 4 months for social/start-up projects and international immersion. Please verify with SPJIMR for the latest details.'',
         needsValidation := False, confidence := JNum 0.6\<rparr>)) \<and>
   monthMatch (retrievedDocs duration_state) = Some ''18-month'' \<and>
   (\<forall>m st. confidence (duration_answer m st) = JNum 0.6) \<and>
   confidence (snd (executeRAGWorkflowFallback env_duration ''How long is PGPM?'')) = JNum 0.6"
proof -
  have "retrievedDocs duration_state = [duration_doc]"
    by (simp add: duration_state_def initial_state_def)
  moreover have "\<forall>m st. confidence (duration_answer m st) = JNum 0.6"
    by (simp add: duration_answer_15)
  moreover have "confidence (snd (executeRAGWorkflowFallback env_duration ''How long is PGPM?'')) = JNum 0.6"
    by (simp add: duration_pipeline_run)
  ultimately show ?thesis
    using duration_generation_run [of e] duration_doc_month_match by simp
qed

theorem C9_witness:
  "\<exists>st'. generationNode env0 duration_state = ([], Inr st') \<and> confidence st' = JNum 0.6 \<and>
     str_includes (response st') ''15 months'' \<and> \<not> str_includes (response st') ''18 months''"
proof -
  have "str_includes ''The SPJIMR PGPM is 15 months. It includes 2 months online, 12 months on-campus, and 4 months for social/start-up projects and international immersion. Please verify with SPJIMR for the latest details.'' ''15 months''"
    by code_simp
  moreover have "\<not> str_includes ''The SPJIMR PGPM is 15 months. It includes 2 months online, 12 months on-campus, and 4 months for social/start-up projects and international immersion. Please verify with SPJIMR for the latest details.'' ''18 months''"
    by code_simp
  ultimately show ?thesis
    using C9_duration_answer_is_always_15_months [of env0] by simp
qed

lemma followup_is_follow_up: "isFollowUpQuery ''tell me more'' = True"
  by code_simp

lemma followup_not_known_term: "isKnownPGPMTerm ''tell me more'' = False"
  by code_simp

lemma followup_trim: "trim ''tell me more'' = ''tell me more''"
  by code_simp

lemma followup_composite_built:
  "buildCompositeQuery ''tell me more'' one_turn_memory = followup_composite"
  by (simp add: buildCompositeQuery_def followup_is_follow_up followup_not_known_term
      followup_trim Let_def getRecentContext_def slice_last_def
      one_turn_memory_def run_mem_ops_def new_memory_def addTurn_def maxHistoryLength_def
      render_turn_def stamp_def sample_turn_def turn_input.defs followup_composite_def)

lemma composite_no_fee: "str_includes (toLowerCase followup_composite) ''fee'' = False"
  by code_simp

lemma composite_no_cost: "str_includes (toLowerCase followup_composite) ''cost'' = False"
  by code_simp

lemma composite_not_followup: "rx_test isFollowUp_rx (trim followup_composite) = False"
  by code_simp

lemma composite_not_stats: "rx_test isStatsQuery_rx followup_composite = False"
  by code_simp

lemma composite_not_broad: "rx_test isBroadQuery_rx (trim followup_composite) = False"
  by code_simp

lemma composite_not_duration: "rx_test wantsDuration_rx followup_composite = False"
  by code_simp

lemma composite_not_social: "rx_test wantsSocial_rx followup_composite = False"
  by code_simp

lemma followup_generation_run:
  "generationNode env0 followup_state =
     ([FallbackCall followup_composite ''Insufficient information in knowledge base''],
      Inr (followup_state
        \<lparr>response := ''We do not have that information; please contact SPJIMR.'',
         needsValidation := False, confidence := JNum 0.3\<rparr>))"
proof -
  have q: "query followup_state = followup_composite"
    and docs: "retrievedDocs followup_state = [fee_doc]"
    and rel: "isRelevant followup_state = JBool True"
    and ha: "hasAnswer followup_state = JBool False"
    by (simp_all add: followup_state_def initial_state_def followup_composite_built)
  show ?thesis
    by (simp add: generationNode_def no_answer_case_def Let_def q docs rel ha
        composite_no_fee composite_no_cost composite_not_followup composite_not_stats
        composite_not_broad composite_not_duration composite_not_social
        graceful_non_answer_def env0_def)
qed

text \<open>
  The whole pipeline on that composite query, in the environment where the classifier
  accepts it, retrieval returns one document and the judge finds no answer: the state
  that reaches generation is \<open>followup_state\<close>, and the run ends at confidence 0.3.
\<close>

lemma followup_pipeline_run:
  "executeRAGWorkflowFallback env0 (buildCompositeQuery ''tell me more'' one_turn_memory) =
     ([ClassifyCall followup_composite,
       JudgeCall (format_docs [fee_doc]) followup_composite,
       FallbackCall followup_composite ''Insufficient information in knowledge base''],
      followup_state
        \<lparr>response := ''We do not have that information; please contact SPJIMR.'',
         needsValidation := False, confidence := JNum 0.3\<rparr>)"
proof -
  have s1: "queryValidationNode env0 (initial_state followup_composite) =
      ([ClassifyCall followup_composite],
       Inr ((initial_state followup_composite)
              \<lparr>isRelevant := JBool True, confidence := JNum 0.9, sources := []\<rparr>))"
    by (simp add: queryValidationNode_def env0_def json_object_def js_or_def initial_state_def)
  have s2: "retrievalNode env0 ((initial_state followup_composite)
              \<lparr>isRelevant := JBool True, confidence := JNum 0.9, sources := []\<rparr>) =
      ([], Inr ((initial_state followup_composite)
              \<lparr>isRelevant := JBool True, retrievedDocs := [fee_doc], confidence := JNum 0.9,
               sources := [''fees.md'']\<rparr>))"
    by (simp add: retrievalNode_def env0_def initial_state_def)
  have s3: "contextCheckNode env0 ((initial_state followup_composite)
              \<lparr>isRelevant := JBool True, retrievedDocs := [fee_doc], confidence := JNum 0.9,
               sources := [''fees.md'']\<rparr>) =
      ([JudgeCall (format_docs [fee_doc]) followup_composite], Inr followup_state)"
    by (simp add: contextCheckNode_def initial_state_def env0_def json_object_def js_and_def
        Let_def followup_state_def followup_composite_built)
  show ?thesis
    by (simp add: executeRAGWorkflowFallback_def run_stages_def then_node_def
        followup_composite_built s1 s2 s3 followup_generation_run)
qed

text \<open>
  Claim C3 (the code differs). The follow-up question \<open>tell me more\<close> after a turn
  on admissions reaches the pipeline as the composite query. With one retrieved
  document and an insufficient context, the generator does not take branch 2b: its
  follow-up pattern is anchored at both ends of the query and the composite query does
  not match it. It falls through to the graceful non-answer: a call of the fallback
  prompt, no validation requested, confidence 0.3; and so does the whole pipeline.
\<close>

theorem C3_followup_composite_misses_branch_2b:
  "query followup_state = buildCompositeQuery ''tell me more'' one_turn_memory \<and>
   isFollowUpQuery ''tell me more'' \<and>
   retrievedDocs followup_state = [fee_doc] \<and> hasAnswer followup_state = JBool False \<and>
   generationNode env0 followup_state =
     ([FallbackCall followup_composite ''Insufficient information in knowledge base''],
      Inr (followup_state
        \<lparr>response := ''We do not have that information; please contact SPJIMR.'',
         needsValidation := False, confidence := JNum 0.3\<rparr>)) \<and>
   confidence (snd (executeRAGWorkflowFallback env0
                      (buildCompositeQuery ''tell me more'' one_turn_memory))) = JNum 0.3"
proof -
  have "query followup_state = followup_composite"
    and "retrievedDocs followup_state = [fee_doc]"
    and "hasAnswer followup_state = JBool False"
    by (simp_all add: followup_state_def initial_state_def followup_composite_built)
  moreover have "confidence (snd (executeRAGWorkflowFallback env0
                      (buildCompositeQuery ''tell me more'' one_turn_memory))) = JNum 0.3"
    by (simp add: followup_pipeline_run)
  ultimately show ?thesis
    using followup_composite_built followup_is_follow_up followup_generation_run
    by simp
qed

theorem C3_witness:
  "\<exists>calls st'. generationNode env0 followup_state = (calls, Inr st') \<and>
     confidence st' = JNum 0.3 \<and> \<not> needsValidation st'"
  using C3_followup_composite_misses_branch_2b by simp

text \<open>
  The same holds for every follow-up question in every session: its composite query
  starts with \<open>Previous conversation context:\<close> or with \<open>User request:\<close>, so
  neither anchored pattern of branch 2b matches it.
\<close>

lemma bol_needs_start: "rx_search (Cat Bol r) (Some c) s = False"
  by (induction s arbitrary: c) simp_all

lemma bol_test: "rx_test (Cat Bol r) s = (rx_match (Cat Bol r) (None, s) \<noteq> [])"
  by (cases s) (simp_all add: rx_test_def bol_needs_start)

lemma trim_unchanged:
  assumes "s \<noteq> []" and "\<not> is_space (hd s)" and "\<not> is_space (last s)"
  shows "trim s = s"
proof -
  have "dropWhile is_space s = s"
    using assms(1,2) by (cases s) simp_all
  moreover have "dropWhile is_space (rev s) = rev s"
    using assms(1,3) by (cases "rev s") (simp_all add: hd_rev)
  ultimately show ?thesis by (simp add: trim_def)
qed

lemma followup_rx_first_letter:
  assumes "c = CHR ''P'' \<or> c = CHR ''U''"
  shows "rx_test isFollowUp_rx (c # cs) = False" and "rx_test isBroadQuery_rx (c # cs) = False"
  using assms
  by (auto simp: bol_test isFollowUp_rx_def isBroadQuery_rx_def anchored_def lower_char_def)

lemma followup_composite_never_matches:
  assumes "trim qn \<noteq> []" and "\<not> isKnownPGPMTerm (trim qn)" and "isFollowUpQuery (trim qn)"
  shows "\<not> rx_test isFollowUp_rx (trim (buildCompositeQuery qn mem)) \<and>
         \<not> rx_test isBroadQuery_rx (trim (buildCompositeQuery qn mem))"
proof (cases "getRecentContext 5 mem = []")
  case True
  define s where "s = ''User request: '' @ trim qn @
      '' (Note: This appears to be a request for detailed SPJIMR PGPM information)''"
  have composite: "buildCompositeQuery qn mem = s"
    using assms True by (simp add: buildCompositeQuery_def Let_def s_def)
  have "trim s = s"
    by (rule trim_unchanged) (simp_all add: s_def is_space_def)
  moreover have "s = CHR ''U'' # tl s"
    by (simp add: s_def)
  ultimately show ?thesis
    unfolding composite using followup_rx_first_letter [of "CHR ''U''" "tl s"] by simp
next
  case False
  define s where "s = ''Previous conversation context:\<newline>'' @ getRecentContext 5 mem @
      ''\<newline>\<newline>Current user request: '' @ trim qn @
      ''\<newline>\<newline>Note: This appears to be a follow-up query asking for more detailed information about the previously discussed SPJIMR PGPM topics.''"
  have composite: "buildCompositeQuery qn mem = s"
    using assms False by (simp add: buildCompositeQuery_def Let_def s_def)
  have "trim s = s"
    by (rule trim_unchanged) (simp_all add: s_def is_space_def)
  moreover have "s = CHR ''P'' # tl s"
    by (simp add: s_def)
  ultimately show ?thesis
    unfolding composite using followup_rx_first_letter [of "CHR ''P''" "tl s"] by simp
qed

section \<open>Replies of the model that are not of the required shape\<close>

text \<open>
  Claim C4 (the code differs). The confidence of a stage's output is whatever the
  decoded reply holds: the schema that bounds it by 0 and 1 is declared and never
  applied. A classifier reply with \<open>confidence: 5\<close> gives query validation an output
  state of confidence 5, outside \<open>[0,1]\<close>.
\<close>

theorem C4_classifier_confidence_unchecked:
  "queryValidationNode env_confidence_5 (initial_state ''what are the fees'') =
     ([ClassifyCall ''what are the fees''],
      Inr ((initial_state ''what are the fees'')
             \<lparr>isRelevant := JBool True, confidence := JNum 5, sources := []\<rparr>)) \<and>
   \<not> ((0::real) \<le> 5 \<and> (5::real) \<le> 1)"
  by (simp add: queryValidationNode_def env_confidence_5_def env0_def json_object_def
      js_or_def initial_state_def)

text \<open>
  What does hold: when every decoded reply of the classifier and of the judge carries a
  numeric confidence in \<open>[0,1]\<close>, the pipeline's final confidence is in \<open>[0,1]\<close>.
\<close>

lemma in_unit_JNum [simp]: "in_unit (JNum c) = (0 \<le> c \<and> c \<le> 1)"
  by (simp add: in_unit_def)

lemma in_unit_js_or: "in_unit a \<Longrightarrow> in_unit (js_or a (JNum 0.8))"
  by (cases a) (simp_all add: js_or_def in_unit_def)

lemma salvage_confidence:
  assumes "salvage e st c = (cs, Inr st')" and "0 \<le> c" and "c \<le> 1"
  shows "in_unit (confidence st')"
  using assms
  by (auto simp: salvage_def Let_def generation_failed_def split: llm_reply.splits)

lemma graceful_non_answer_confidence:
  assumes "graceful_non_answer e st = (cs, Inr st')"
  shows "in_unit (confidence st')"
  using assms
  by (auto simp: graceful_non_answer_def Let_def split: llm_reply.splits)

lemma duration_answer_confidence: "in_unit (confidence (duration_answer m st))"
  by (simp add: duration_answer_def Let_def)

lemma no_answer_case_cases:
  "no_answer_case e st = salvage e st 0.7 \<or> no_answer_case e st = salvage e st 0.8 \<or>
   (\<exists>m. no_answer_case e st = ([], Inr (duration_answer m st))) \<or>
   no_answer_case e st = salvage e st 0.75 \<or>
   no_answer_case e st = graceful_non_answer e st"
  by (auto simp: no_answer_case_def Let_def split: option.splits)

lemma no_answer_case_confidence:
  assumes "no_answer_case e st = (cs, Inr st')"
  shows "in_unit (confidence st')"
  using no_answer_case_cases [of e st] assms
    salvage_confidence [of e st "0.7" cs st'] salvage_confidence [of e st "0.8" cs st']
    salvage_confidence [of e st "0.75" cs st'] graceful_non_answer_confidence [of e st cs st']
    duration_answer_confidence [of _ st]
  by auto

lemma grounded_case_confidence:
  assumes "grounded_case e st = (cs, Inr st')" and "in_unit (confidence st)"
  shows "in_unit (confidence st')"
  using assms in_unit_js_or [of "confidence st"]
  by (auto simp: grounded_case_def Let_def generation_failed_def split: llm_reply.splits if_splits)

lemma generationNode_cases:
  "generationNode e st =
     ([], Inr (st\<lparr>response := NOT_RELEVANT, needsValidation := False, confidence := JNum 1\<rparr>)) \<or>
   generationNode e st = no_answer_case e st \<or> generationNode e st = grounded_case e st"
  by (simp add: generationNode_def)

lemma generationNode_confidence:
  assumes "generationNode e st = (cs, Inr st')" and "in_unit (confidence st)"
  shows "in_unit (confidence st')"
  using generationNode_cases [of e st] assms
    no_answer_case_confidence [of e st cs st'] grounded_case_confidence [of e st cs st']
  by auto

lemma then_node_Inr:
  assumes "then_node x f = (cs, Inr st)"
  obtains cs1 st1 cs2 where "x = (cs1, Inr st1)" and "f st1 = (cs2, Inr st)"
  using assms
  by (cases x; cases "snd x") (auto simp: then_node_def split: prod.splits)

lemma queryValidationNode_confidence:
  assumes "queryValidationNode e st = (cs, Inr st')"
  shows "\<exists>f. classify e (query st) = Content (JsonValue f) \<and> confidence st' = f ''confidence''"
  using assms
  by (cases "classify e (query st)")
     (auto simp: queryValidationNode_def Let_def split: parsed.splits if_splits)

lemma retrievalNode_confidence:
  assumes "retrievalNode e st = (cs, Inr st')"
  shows "confidence st' = confidence st"
  using assms by (auto simp: retrievalNode_def split: option.splits)

lemma contextCheckNode_confidence:
  assumes "contextCheckNode e st = (cs, Inr st')"
  shows "confidence st' = JNum 0 \<or>
         (\<exists>f. judge e (format_docs (retrievedDocs st)) (query st) = Content (JsonValue f) \<and>
              confidence st' = f ''confidence'')"
  using assms
  by (cases "judge e (format_docs (retrievedDocs st)) (query st)")
     (auto simp: contextCheckNode_def Let_def split: parsed.splits if_splits)

lemma pipeline_confidence_in_range:
  assumes classify_ok: "\<And>q f. classify e q = Content (JsonValue f) \<Longrightarrow> in_unit (f ''confidence'')"
    and judge_ok: "\<And>d q f. judge e d q = Content (JsonValue f) \<Longrightarrow> in_unit (f ''confidence'')"
  shows "in_unit (confidence (snd (executeRAGWorkflowFallback e q)))"
proof (cases "run_stages e q")
  case (Pair cs res)
  show ?thesis
  proof (cases res)
    case (Inl err)
    then show ?thesis
      using Pair by (simp add: executeRAGWorkflowFallback_def error_state_def)
  next
    case (Inr final)
    have "then_node
       (then_node (queryValidationNode e (initial_state q))
          (\<lambda>st. if truthy (isRelevant st)
                then then_node (retrievalNode e st) (contextCheckNode e)
                else ([], Inr st)))
       (generationNode e) = (cs, Inr final)"
      using Pair Inr by (simp add: run_stages_def)
    then obtain cs3 st3 cs4 where
      before: "then_node (queryValidationNode e (initial_state q))
          (\<lambda>st. if truthy (isRelevant st)
                then then_node (retrievalNode e st) (contextCheckNode e)
                else ([], Inr st)) = (cs3, Inr st3)"
      and gen: "generationNode e st3 = (cs4, Inr final)"
      by (rule then_node_Inr)
    from before obtain cs1 st1 cs2 where
      s1: "queryValidationNode e (initial_state q) = (cs1, Inr st1)"
      and rest: "(if truthy (isRelevant st1)
                then then_node (retrievalNode e st1) (contextCheckNode e)
                else ([], Inr st1)) = (cs2, Inr st3)"
      by (rule then_node_Inr)
    have c1: "in_unit (confidence st1)"
      using queryValidationNode_confidence [OF s1] classify_ok by auto
    have c3: "in_unit (confidence st3)"
    proof (cases "truthy (isRelevant st1)")
      case False
      then show ?thesis using rest c1 by simp
    next
      case True
      then have "then_node (retrievalNode e st1) (contextCheckNode e) = (cs2, Inr st3)"
        using rest by simp
      then obtain csr st2 csc where
        s2: "retrievalNode e st1 = (csr, Inr st2)"
        and s3: "contextCheckNode e st2 = (csc, Inr st3)"
        by (rule then_node_Inr)
      show ?thesis
        using contextCheckNode_confidence [OF s3] judge_ok by auto
    qed
    have "in_unit (confidence final)"
      using gen c3 by (rule generationNode_confidence)
    then show ?thesis
      using Pair Inr by (simp add: executeRAGWorkflowFallback_def)
  qed
qed

lemma hello_not_fallback_relevant: "fallbackRelevant ''hello there'' = False"
  by code_simp

text \<open>
  Claim C7 (the code differs). Only a reply that is not JSON at all (or is \<open>null\<close>)
  raises the \<open>ValidationError\<close>. A reply that is JSON of another shape, such as
  \<open>{}\<close>, is accepted: the context gate returns \<open>hasAnswer = undefined\<close>, an empty
  context and \<open>confidence = undefined\<close>, and query validation returns the keyword
  fallback as \<open>isRelevant\<close> with \<open>confidence = undefined\<close>; neither raises an error.
\<close>

theorem C7_wrong_shape_is_accepted:
  "contextCheckNode env_empty_object fee_gate_state =
     ([JudgeCall ''Document 1:\<newline>PGPM fee structure. The fee below is indicative and is subject to revision. Total fee 21,00,000'' ''what are the fees''],
      Inr (fee_gate_state\<lparr>hasAnswer := JUndefined, context' := [], confidence := JUndefined\<rparr>)) \<and>
   queryValidationNode env_empty_object (initial_state ''hello there'') =
     ([ClassifyCall ''hello there''],
      Inr ((initial_state ''hello there'')\<lparr>isRelevant := JBool False, confidence := JUndefined\<rparr>))"
proof -
  have docs: "retrievedDocs fee_gate_state = [fee_doc]"
    and q: "query fee_gate_state = ''what are the fees''"
    by (simp_all add: fee_gate_state_def initial_state_def)
  have gate: "contextCheckNode env_empty_object fee_gate_state =
     ([JudgeCall ''Document 1:\<newline>PGPM fee structure. The fee below is indicative and is subject to revision. Total fee 21,00,000'' ''what are the fees''],
      Inr (fee_gate_state\<lparr>hasAnswer := JUndefined, context' := [], confidence := JUndefined\<rparr>))"
    by (simp add: contextCheckNode_def docs q fee_blob env_empty_object_def env0_def
        json_object_def js_and_def Let_def)
  have "queryValidationNode env_empty_object (initial_state ''hello there'') =
     ([ClassifyCall ''hello there''],
      Inr ((initial_state ''hello there'')\<lparr>isRelevant := JBool False, confidence := JUndefined\<rparr>))"
    by (simp add: queryValidationNode_def env_empty_object_def env0_def json_object_def
        js_or_def initial_state_def hello_not_fallback_relevant)
  with gate show ?thesis by simp
qed

text \<open>What does hold: a reply that is not JSON, or is \<open>null\<close>, raises the error.\<close>

lemma malformed_classifier_reply_raises:
  assumes "classify e (query st) = Content SyntaxError \<or> classify e (query st) = Content JsonNull"
  shows "queryValidationNode e st =
     ([ClassifyCall (query st)], Inl (ValidationError ''Failed to parse validation response''))"
  using assms by (auto simp: queryValidationNode_def)

lemma malformed_judge_reply_raises:
  assumes "retrievedDocs st \<noteq> []"
    and "judge e (format_docs (retrievedDocs st)) (query st) = Content SyntaxError \<or>
         judge e (format_docs (retrievedDocs st)) (query st) = Content JsonNull"
  shows "contextCheckNode e st =
     ([JudgeCall (format_docs (retrievedDocs st)) (query st)],
      Inl (ValidationError ''Failed to parse context validation response''))"
  using assms by (auto simp: contextCheckNode_def Let_def)

section \<open>Properties of the pipeline and of response validation\<close>

lemma then_node_no_validator:
  assumes "\<forall>c r. ValidatorCall c r \<notin> set (fst x)"
    and "\<And>st. \<forall>c r. ValidatorCall c r \<notin> set (fst (f st))"
  shows "\<forall>c r. ValidatorCall c r \<notin> set (fst (then_node x f))"
proof (cases x)
  case (Pair cs res)
  show ?thesis
  proof (cases res)
    case (Inl err)
    then show ?thesis using assms(1) Pair by (simp add: then_node_def)
  next
    case (Inr st)
    obtain cs' y where f: "f st = (cs', y)" by (cases "f st")
    have "\<forall>c r. ValidatorCall c r \<notin> set cs'"
      using assms(2) [of st] f by simp
    then show ?thesis using assms(1) Pair Inr f by (simp add: then_node_def)
  qed
qed

lemma queryValidationNode_calls:
  "fst (queryValidationNode e st) = [ClassifyCall (query st)]"
  by (simp add: queryValidationNode_def Let_def split: llm_reply.splits parsed.splits)

lemma retrievalNode_calls: "fst (retrievalNode e st) = []"
  by (simp add: retrievalNode_def split: option.splits)

lemma contextCheckNode_calls:
  "fst (contextCheckNode e st) = [] \<or>
   fst (contextCheckNode e st) = [JudgeCall (format_docs (retrievedDocs st)) (query st)]"
  by (simp add: contextCheckNode_def Let_def split: llm_reply.splits parsed.splits)

lemma salvage_calls:
  "fst (salvage e st conf) = [GroundedCall (format_docs (retrievedDocs st)) (query st)]"
  by (simp add: salvage_def Let_def split: llm_reply.splits)

lemma graceful_non_answer_calls:
  "fst (graceful_non_answer e st) =
     [FallbackCall (query st) ''Insufficient information in knowledge base'']"
  by (simp add: graceful_non_answer_def Let_def split: llm_reply.splits)

lemma grounded_case_calls:
  "fst (grounded_case e st) = [GroundedCall (context' st) (query st)]"
  by (simp add: grounded_case_def Let_def split: llm_reply.splits)

lemma no_answer_case_no_validator:
  "\<forall>c r. ValidatorCall c r \<notin> set (fst (no_answer_case e st))"
  by (simp add: no_answer_case_def Let_def salvage_calls graceful_non_answer_calls
      split: option.splits)

lemma generationNode_no_validator:
  "\<forall>c r. ValidatorCall c r \<notin> set (fst (generationNode e st))"
  using no_answer_case_no_validator [of e st]
  by (simp add: generationNode_def grounded_case_calls)

lemma run_stages_no_validator:
  "\<forall>c r. ValidatorCall c r \<notin> set (fst (run_stages e q))"
  unfolding run_stages_def
proof (rule then_node_no_validator)
  show "\<forall>c r. ValidatorCall c r \<notin> set (fst (then_node (queryValidationNode e (initial_state q))
          (\<lambda>st. if truthy (isRelevant st)
                then then_node (retrievalNode e st) (contextCheckNode e)
                else ([], Inr st))))"
  proof (rule then_node_no_validator)
    show "\<forall>c r. ValidatorCall c r \<notin> set (fst (queryValidationNode e (initial_state q)))"
      by (simp add: queryValidationNode_calls)
  next
    fix st
    have "\<forall>c r. ValidatorCall c r \<notin> set (fst (then_node (retrievalNode e st) (contextCheckNode e)))"
    proof (rule then_node_no_validator)
      show "\<forall>c r. ValidatorCall c r \<notin> set (fst (retrievalNode e st))"
        by (simp add: retrievalNode_calls)
    next
      fix st2
      show "\<forall>c r. ValidatorCall c r \<notin> set (fst (contextCheckNode e st2))"
        using contextCheckNode_calls [of e st2] by auto
    qed
    then show "\<forall>c r. ValidatorCall c r \<notin> set (fst (if truthy (isRelevant st)
                then then_node (retrievalNode e st) (contextCheckNode e)
                else ([], Inr st)))"
      by simp
  qed
next
  fix st
  show "\<forall>c r. ValidatorCall c r \<notin> set (fst (generationNode e st))"
    by (rule generationNode_no_validator)
qed

lemma final_state_is_generation_output:
  "(\<exists>err. snd (executeRAGWorkflowFallback e q) = error_state q err) \<or>
   (\<exists>st cs. generationNode e st = (cs, Inr (snd (executeRAGWorkflowFallback e q))))"
proof (cases "run_stages e q")
  case (Pair cs res)
  show ?thesis
  proof (cases res)
    case (Inl err)
    then show ?thesis using Pair by (auto simp: executeRAGWorkflowFallback_def)
  next
    case (Inr st)
    have "then_node
       (then_node (queryValidationNode e (initial_state q))
          (\<lambda>st. if truthy (isRelevant st)
                then then_node (retrievalNode e st) (contextCheckNode e)
                else ([], Inr st)))
       (generationNode e) = (cs, Inr st)"
      using Pair Inr by (simp add: run_stages_def)
    then obtain cs1 st1 cs2 where "generationNode e st1 = (cs2, Inr st)"
      by (rule then_node_Inr)
    moreover have "snd (executeRAGWorkflowFallback e q) = st"
      using Pair Inr by (simp add: executeRAGWorkflowFallback_def)
    ultimately show ?thesis by blast
  qed
qed

lemma fees_query_has_fee: "str_includes (toLowerCase ''what are the fees'') ''fee'' = True"
  by code_simp

lemma fee_doc_has_fee_info: "has_fee_info fee_doc = True"
  by code_simp

lemma fee_pipeline_run:
  "executeRAGWorkflowFallback env0 ''what are the fees'' =
     ([ClassifyCall ''what are the fees'',
       JudgeCall ''Document 1:\<newline>PGPM fee structure. The fee below is indicative and is subject to revision. Total fee 21,00,000'' ''what are the fees'',
       GroundedCall ''Document 1:\<newline>PGPM fee structure. The fee below is indicative and is subject to revision. Total fee 21,00,000'' ''what are the fees''],
      fee_final_state)"
proof -
  have s1: "queryValidationNode env0 (initial_state ''what are the fees'') =
      ([ClassifyCall ''what are the fees''],
       Inr ((initial_state ''what are the fees'')
              \<lparr>isRelevant := JBool True, confidence := JNum 0.9, sources := []\<rparr>))"
    by (simp add: queryValidationNode_def env0_def json_object_def js_or_def initial_state_def)
  have s2: "retrievalNode env0 ((initial_state ''what are the fees'')
              \<lparr>isRelevant := JBool True, confidence := JNum 0.9, sources := []\<rparr>) =
      ([], Inr fee_gate_state)"
    by (simp add: retrievalNode_def env0_def fee_gate_state_def initial_state_def)
  have s3: "contextCheckNode env0 fee_gate_state =
      ([JudgeCall ''Document 1:\<newline>PGPM fee structure. The fee below is indicative and is subject to revision. Total fee 21,00,000'' ''what are the fees''],
       Inr (fee_gate_state\<lparr>hasAnswer := JBool False, context' := [], confidence := JNum 0.1\<rparr>))"
    by (simp add: contextCheckNode_def fee_gate_state_def initial_state_def fee_blob env0_def
        json_object_def js_and_def Let_def)
  have s4: "generationNode env0
        (fee_gate_state\<lparr>hasAnswer := JBool False, context' := [], confidence := JNum 0.1\<rparr>) =
      ([GroundedCall ''Document 1:\<newline>PGPM fee structure. The fee below is indicative and is subject to revision. Total fee 21,00,000'' ''what are the fees''],
       Inr fee_final_state)"
    by (simp add: generationNode_def no_answer_case_def Let_def fee_gate_state_def
        initial_state_def fees_query_has_fee fee_doc_has_fee_info salvage_def fee_blob env0_def
        fee_final_state_def)
  show ?thesis
    by (simp add: executeRAGWorkflowFallback_def run_stages_def then_node_def s1 s2 s3 s4)
qed

text \<open>
  Claim C2, as stated, fails: for the question on fees the generator's fee branch asks
  for validation at confidence 0.7, and the pipeline returns that state as it is.
  Validation is still requested in the final state, its confidence is below 0.8, and
  the response validator was never called.
\<close>

theorem C2_counterexample:
  "snd (executeRAGWorkflowFallback env0 ''what are the fees'') = fee_final_state \<and>
   needsValidation fee_final_state \<and> confidence fee_final_state = JNum 0.7 \<and>
   \<not> ((0.8::real) \<le> 0.7) \<and>
   fst (executeRAGWorkflowFallback env0 ''what are the fees'') =
     [ClassifyCall ''what are the fees'',
      JudgeCall ''Document 1:\<newline>PGPM fee structure. The fee below is indicative and is subject to revision. Total fee 21,00,000'' ''what are the fees'',
      GroundedCall ''Document 1:\<newline>PGPM fee structure. The fee below is indicative and is subject to revision. Total fee 21,00,000'' ''what are the fees'']"
  by (simp add: fee_pipeline_run fee_final_state_def)

text \<open>
  Claim C2, amended. The pipeline ends with the generation stage: it never calls the
  response validator, and its final state is the state a call of the generation stage
  returned (or the fixed error state). \<open>responseValidationNode\<close> on its own returns the
  response unchanged with the flag cleared when validation was not requested; when it
  was requested, with a non-empty response and context and a decoded reply of the
  validator, it returns the response unchanged, clears the flag and sets the
  confidence to \<open>Math.max(0.8, confidence || 0.8)\<close>, which for a numeric confidence
  \<open>c\<close> is \<open>max 0.8 c\<close>.
\<close>

theorem C2_validation_is_a_separate_pass_through:
  "(\<forall>c r. ValidatorCall c r \<notin> set (fst (executeRAGWorkflowFallback e q))) \<and>
   ((\<exists>err. snd (executeRAGWorkflowFallback e q) = error_state q err) \<or>
    (\<exists>st0 cs. generationNode e st0 = (cs, Inr (snd (executeRAGWorkflowFallback e q))))) \<and>
   (\<not> needsValidation st \<longrightarrow>
      responseValidationNode e st = ([], Inr (st\<lparr>needsValidation := False\<rparr>))) \<and>
   (needsValidation st \<and> response st \<noteq> [] \<and> context' st \<noteq> [] \<and>
    validator e (context' st) (response st) = Content (JsonValue f) \<longrightarrow>
      responseValidationNode e st =
        ([ValidatorCall (context' st) (response st)],
         Inr (st\<lparr>needsValidation := False,
                 confidence := js_max 0.8 (js_or (confidence st) (JNum 0.8))\<rparr>)) \<and>
      (\<forall>c. confidence st = JNum c \<longrightarrow>
             js_max 0.8 (js_or (confidence st) (JNum 0.8)) = JNum (max 0.8 c)))"
proof -
  have a: "\<forall>c r. ValidatorCall c r \<notin> set (fst (executeRAGWorkflowFallback e q))"
    using run_stages_no_validator [of e q]
    by (cases "run_stages e q"; cases "snd (run_stages e q)")
       (auto simp: executeRAGWorkflowFallback_def)
  have b: "\<not> needsValidation st \<longrightarrow>
      responseValidationNode e st = ([], Inr (st\<lparr>needsValidation := False\<rparr>))"
    by (simp add: responseValidationNode_def)
  have c: "needsValidation st \<and> response st \<noteq> [] \<and> context' st \<noteq> [] \<and>
    validator e (context' st) (response st) = Content (JsonValue f) \<longrightarrow>
      responseValidationNode e st =
        ([ValidatorCall (context' st) (response st)],
         Inr (st\<lparr>needsValidation := False,
                 confidence := js_max 0.8 (js_or (confidence st) (JNum 0.8))\<rparr>))"
    by (simp add: responseValidationNode_def Let_def)
  have d: "\<forall>c. confidence st = JNum c \<longrightarrow>
             js_max 0.8 (js_or (confidence st) (JNum 0.8)) = JNum (max 0.8 c)"
    by (simp add: js_max_def js_or_def)
  show ?thesis
    using a b c d final_state_is_generation_output [of e q] by blast
qed

theorem C2_witness:
  "responseValidationNode env0 answered_state =
     ([ValidatorCall ''Document 1:\<newline>PGPM fee structure. The fee below is indicative and is subject to revision. Total fee 21,00,000''
         ''The total PGPM fee is 21,00,000. Please verify with SPJIMR.''],
      Inr (answered_state\<lparr>needsValidation := False, confidence := JNum 0.8\<rparr>))"
proof -
  have h: "needsValidation answered_state \<and> response answered_state \<noteq> [] \<and>
      context' answered_state \<noteq> [] \<and>
      validator env0 (context' answered_state) (response answered_state) =
        Content (JsonValue (\<lambda>name. case map_of [(''isValid'', JBool True), (''confidence'', JNum 0.9)] name of
                                       None \<Rightarrow> JUndefined | Some v \<Rightarrow> v))"
    by (simp add: answered_state_def env0_def json_object_def)
  have conf: "confidence answered_state = JNum 0.25"
    and ctx: "context' answered_state = ''Document 1:\<newline>PGPM fee structure. The fee below is indicative and is subject to revision. Total fee 21,00,000''"
    and resp: "response answered_state = ''The total PGPM fee is 21,00,000. Please verify with SPJIMR.''"
    by (simp_all add: answered_state_def)
  from C2_validation_is_a_separate_pass_through
         [of env0 "''what are the fees''" answered_state
             "\<lambda>name. case map_of [(''isValid'', JBool True), (''confidence'', JNum 0.9)] name of
                        None \<Rightarrow> JUndefined | Some v \<Rightarrow> v"] h
  have "responseValidationNode env0 answered_state =
        ([ValidatorCall (context' answered_state) (response answered_state)],
         Inr (answered_state\<lparr>needsValidation := False,
                 confidence := js_max 0.8 (js_or (confidence answered_state) (JNum 0.8))\<rparr>))"
    by blast
  then show ?thesis
    unfolding ctx resp conf by (simp add: js_max_def js_or_def)
qed

section \<open>Properties of the streaming endpoint\<close>

lemma frames_map_Frame: "frames (map Frame evs @ outs) = evs @ frames outs"
  by (induction evs) simp_all

lemma tick_event_progress: "progress_kind (kind (tick_event t))"
  by (cases t) (simp_all add: progress_kind_def)

lemma ticks_progress: "list_all (\<lambda>ev. progress_kind (kind ev)) (map tick_event ts)"
  by (induction ts) (simp_all add: tick_event_progress)

lemma count_progress_zero:
  assumes "list_all (\<lambda>ev. progress_kind (kind ev)) evs" and "\<not> progress_kind k"
  shows "count_kind k evs = 0"
  using assms unfolding count_kind_def by (induction evs) auto

lemma count_kind_append: "count_kind k (xs @ ys) = count_kind k xs + count_kind k ys"
  by (simp add: count_kind_def)

lemma error_state_invoke:
  assumes "run_stages e q = (cs, Inl err)"
  shows "snd (workflow_invoke e (initial_state q)) = error_state q err"
  using assms by (simp add: workflow_invoke_def executeRAGWorkflowFallback_def initial_state_def)

text \<open>The requests that are answered without a stream, and the ones that open it.\<close>

lemma invalid_question_rejected:
  assumes "req_question rq = None \<or> req_question rq = Some []"
  shows "handleStreamingChat workflow_ready se rq mem =
           (JsonError 400 ''INVALID_QUESTION'', [], mem)"
  using assms by (auto simp: handleStreamingChat_def)

lemma workflow_not_ready_rejected:
  assumes "req_question rq = Some qn" and "qn \<noteq> []"
  shows "handleStreamingChat False se rq mem = (JsonError 503 ''WORKFLOW_NOT_READY'', [], mem)"
  using assms by (simp add: handleStreamingChat_def)

lemma valid_request_streams:
  assumes "req_question rq = Some qn" and "qn \<noteq> []"
  shows "handleStreamingChat True se rq mem =
     (EventStream,
      stream_outputs (req_sessionId rq) se
        (Inr (snd (workflow_invoke (services se)
                     (initial_state (trim (buildCompositeQuery qn mem)))))),
      addTurn (finished se)
        \<lparr>question = qn,
         answer = final_answer (ticks se)
                    (snd (workflow_invoke (services se)
                            (initial_state (trim (buildCompositeQuery qn mem))))),
         turn_confidence = final_confidence
                    (snd (workflow_invoke (services se)
                            (initial_state (trim (buildCompositeQuery qn mem))))),
         turn_sources = sources
                    (snd (workflow_invoke (services se)
                            (initial_state (trim (buildCompositeQuery qn mem)))))\<rparr>
        mem)"
  using assms by (simp add: handleStreamingChat_def Let_def)

lemma stream_opened_iff:
  "(fst (handleStreamingChat workflow_ready se rq mem) = EventStream) =
     ((\<exists>qn. req_question rq = Some qn \<and> qn \<noteq> []) \<and> workflow_ready)"
  by (cases "req_question rq") (auto simp: handleStreamingChat_def Let_def)

text \<open>
  The shape of what is written to an opened stream, for both outcomes of the awaited
  workflow: when it resolves, the \<open>complete\<close> frame; when it rejects, the \<open>error\<close>
  frame in its place.
\<close>

lemma stream_outputs_resolved:
  "stream_outputs sid se (Inr result) =
     Frame (Connected sid (started se)) #
     map Frame (Status ''Processing query...'' # map tick_event (ticks se)) @
     [Frame (Complete (final_answer (ticks se) result) (final_confidence result)
               (sources result) (length (retrievedDocs result))),
      Frame End, Close]"
  by (simp add: stream_outputs_def)

lemma stream_outputs_rejected:
  "stream_outputs sid se (Inl err) =
     Frame (Connected sid (started se)) #
     map Frame (Status ''Processing query...'' # map tick_event (ticks se)) @
     [Frame (ErrorEvent ''Failed to process streaming query''
               (if development se then Some err else None)),
      Frame End, Close]"
  by (simp add: stream_outputs_def)

lemma stream_shape_counts:
  assumes mid: "list_all (\<lambda>ev. progress_kind (kind ev)) mid"
    and outs: "outs = Frame (Connected sid time) # map Frame mid @
                      [Frame (Complete ans conf srcs n), Frame End, Close]"
  shows "count_kind KConnected (frames outs) = 1" and "count_kind KComplete (frames outs) = 1"
    and "count_kind KEnd (frames outs) = 1" and "count_kind KError (frames outs) = 0"
proof -
  have fr: "frames outs = Connected sid time # mid @ [Complete ans conf srcs n, End]"
    unfolding outs by (simp add: frames_map_Frame)
  have zero: "\<And>k. \<not> progress_kind k \<Longrightarrow> count_kind k mid = 0"
    using mid by (rule count_progress_zero)
  have one: "count_kind KConnected [Connected sid time] = 1"
    "count_kind KComplete [Connected sid time] = 0"
    "count_kind KEnd [Connected sid time] = 0" "count_kind KError [Connected sid time] = 0"
    "count_kind KConnected [Complete ans conf srcs n, End] = 0"
    "count_kind KComplete [Complete ans conf srcs n, End] = 1"
    "count_kind KEnd [Complete ans conf srcs n, End] = 1"
    "count_kind KError [Complete ans conf srcs n, End] = 0"
    by (simp_all add: count_kind_def)
  have split: "\<And>k. count_kind k (frames outs) =
      count_kind k [Connected sid time] + count_kind k mid +
      count_kind k [Complete ans conf srcs n, End]"
    unfolding fr by (simp add: count_kind_def)
  show "count_kind KConnected (frames outs) = 1"
    using split [of KConnected] zero [of KConnected] one by (simp add: progress_kind_def)
  show "count_kind KComplete (frames outs) = 1"
    using split [of KComplete] zero [of KComplete] one by (simp add: progress_kind_def)
  show "count_kind KEnd (frames outs) = 1"
    using split [of KEnd] zero [of KEnd] one by (simp add: progress_kind_def)
  show "count_kind KError (frames outs) = 0"
    using split [of KError] zero [of KError] one by (simp add: progress_kind_def)
qed

text \<open>
  Claim C1. Every request that the handler answers with an event stream (these are the
  requests with a non-empty string question that reach an initialised workflow) gets
  this sequence: the \<open>connected\<close> frame, then frames that are all \<open>status\<close>,
  \<open>token\<close> or \<open>ping\<close>, then the \<open>complete\<close> frame, then the \<open>end\<close> frame, and
  then the response is ended, with nothing after. So there is exactly one
  \<open>connected\<close>, one \<open>complete\<close> and one \<open>end\<close> frame, in that order, and no
  \<open>error\<close> frame. This holds also when a stage of the pipeline throws: the
  \<open>complete\<close> frame then carries the fixed error answer at confidence 0.1, and the
  \<open>end\<close> frame still precedes the end of the response.
\<close>

theorem C1_stream_shape:
  assumes "handleStreamingChat workflow_ready se rq mem = (EventStream, outs, mem')"
  shows "\<exists>qn mid ans conf srcs n.
           req_question rq = Some qn \<and> qn \<noteq> [] \<and> workflow_ready \<and>
           outs = Frame (Connected (req_sessionId rq) (started se)) # map Frame mid @
                  [Frame (Complete ans conf srcs n), Frame End, Close] \<and>
           list_all (\<lambda>ev. progress_kind (kind ev)) mid \<and>
           count_kind KConnected (frames outs) = 1 \<and>
           count_kind KComplete (frames outs) = 1 \<and>
           count_kind KEnd (frames outs) = 1 \<and>
           count_kind KError (frames outs) = 0 \<and>
           (\<forall>cs err. run_stages (services se) (trim (buildCompositeQuery qn mem)) = (cs, Inl err) \<longrightarrow>
              conf = JNum 0.1 \<and>
              ans = response (error_state (trim (buildCompositeQuery qn mem)) err))"
proof -
  have "fst (handleStreamingChat workflow_ready se rq mem) = EventStream"
    using assms by simp
  then obtain qn where qn: "req_question rq = Some qn" "qn \<noteq> []" and ready: "workflow_ready"
    unfolding stream_opened_iff by blast
  define result where
    "result = snd (workflow_invoke (services se) (initial_state (trim (buildCompositeQuery qn mem))))"
  define mid where "mid = Status ''Processing query...'' # map tick_event (ticks se)"
  define ans where "ans = final_answer (ticks se) result"
  define conf where "conf = final_confidence result"
  have "outs = stream_outputs (req_sessionId rq) se (Inr result)"
    using assms valid_request_streams [OF qn, of se mem] ready by (simp add: result_def)
  then have outs: "outs = Frame (Connected (req_sessionId rq) (started se)) # map Frame mid @
                  [Frame (Complete ans conf (sources result) (length (retrievedDocs result))),
                   Frame End, Close]"
    by (simp add: stream_outputs_resolved mid_def ans_def conf_def)
  have mid: "list_all (\<lambda>ev. progress_kind (kind ev)) mid"
    unfolding mid_def using ticks_progress [of "ticks se"] by (simp add: progress_kind_def)
  note counts = stream_shape_counts [OF mid outs]
  have failure: "\<forall>cs err. run_stages (services se) (trim (buildCompositeQuery qn mem)) = (cs, Inl err) \<longrightarrow>
      conf = JNum 0.1 \<and> ans = response (error_state (trim (buildCompositeQuery qn mem)) err)"
  proof (intro allI impI)
    fix cs err
    assume "run_stages (services se) (trim (buildCompositeQuery qn mem)) = (cs, Inl err)"
    then have "result = error_state (trim (buildCompositeQuery qn mem)) err"
      unfolding result_def by (rule error_state_invoke)
    then show "conf = JNum 0.1 \<and> ans = response (error_state (trim (buildCompositeQuery qn mem)) err)"
      by (simp add: conf_def ans_def final_confidence_def final_answer_def error_state_def js_or_def)
  qed
  show ?thesis
    using qn ready outs mid counts failure by blast
qed

lemma fees_trim: "trim ''what are the fees'' = ''what are the fees''"
  by code_simp

lemma fees_not_known_term: "isKnownPGPMTerm ''what are the fees'' = False"
  by code_simp

lemma fees_not_follow_up: "isFollowUpQuery ''what are the fees'' = False"
  by code_simp

lemma fees_composite: "buildCompositeQuery ''what are the fees'' new_memory = ''what are the fees''"
  by (simp add: buildCompositeQuery_def Let_def fees_trim fees_not_known_term fees_not_follow_up
      getRecentContext_def slice_last_def new_memory_def)

lemma fees_stream_run:
  "handleStreamingChat True stream_env0 fees_request new_memory =
     (EventStream,
      [Frame (Connected ''s1'' 0), Frame (Status ''Processing query...''),
       Frame (Token ''The total''), Frame (Ping 15), Frame (Token '' PGPM fee''),
       Frame (Complete ''The total PGPM fee is 21,00,000. Please verify with SPJIMR.''
                (JNum 0.7) [''fees.md''] 1),
       Frame End, Close],
      addTurn 20
        \<lparr>question = ''what are the fees'',
         answer = ''The total PGPM fee is 21,00,000. Please verify with SPJIMR.'',
         turn_confidence = JNum 0.7, turn_sources = [''fees.md'']\<rparr>
        new_memory)"
  by (simp add: handleStreamingChat_def fees_request_def stream_env0_def Let_def fees_composite
      fees_trim workflow_invoke_def initial_state_def fee_pipeline_run fee_final_state_def
      stream_outputs_def final_answer_def final_confidence_def js_or_def)

lemma failed_stage_stream_run:
  "handleStreamingChat True stream_env_failed_stage fees_request new_memory =
     (EventStream,
      [Frame (Connected ''s1'' 0), Frame (Status ''Processing query...''), Frame (Ping 15),
       Frame (Complete ''I apologize, but I encountered an error while processing your question. Please try again or contact SPJIMR directly for assistance.''
                (JNum 0.1) [] 0),
       Frame End, Close],
      addTurn 20
        \<lparr>question = ''what are the fees'',
         answer = ''I apologize, but I encountered an error while processing your question. Please try again or contact SPJIMR directly for assistance.'',
         turn_confidence = JNum 0.1, turn_sources = []\<rparr>
        new_memory)"
proof -
  have "run_stages env_not_json ''what are the fees'' =
      ([ClassifyCall ''what are the fees''],
       Inl (ValidationError ''Failed to parse validation response''))"
    by (simp add: run_stages_def then_node_def queryValidationNode_def env_not_json_def env0_def
        initial_state_def)
  then have "snd (workflow_invoke env_not_json (initial_state ''what are the fees'')) =
      error_state ''what are the fees'' (ValidationError ''Failed to parse validation response'')"
    by (rule error_state_invoke)
  then show ?thesis
    by (simp add: handleStreamingChat_def fees_request_def stream_env_failed_stage_def Let_def
        fees_composite fees_trim error_state_def stream_outputs_def final_answer_def
        final_confidence_def js_or_def)
qed

theorem C1_witness:
  "(\<exists>outs mem'. handleStreamingChat True stream_env0 fees_request new_memory =
       (EventStream, outs, mem') \<and>
     outs = [Frame (Connected ''s1'' 0), Frame (Status ''Processing query...''),
             Frame (Token ''The total''), Frame (Ping 15), Frame (Token '' PGPM fee''),
             Frame (Complete ''The total PGPM fee is 21,00,000. Please verify with SPJIMR.''
                      (JNum 0.7) [''fees.md''] 1),
             Frame End, Close] \<and>
     count_kind KConnected (frames outs) = 1 \<and> count_kind KComplete (frames outs) = 1 \<and>
     count_kind KEnd (frames outs) = 1) \<and>
   (\<exists>outs mem'. handleStreamingChat True stream_env_failed_stage fees_request new_memory =
       (EventStream, outs, mem') \<and>
     run_stages (services stream_env_failed_stage) ''what are the fees'' =
       ([ClassifyCall ''what are the fees''],
        Inl (ValidationError ''Failed to parse validation response'')) \<and>
     count_kind KComplete (frames outs) = 1 \<and> count_kind KEnd (frames outs) = 1 \<and>
     last outs = Close)"
proof -
  have "run_stages (services stream_env_failed_stage) ''what are the fees'' =
      ([ClassifyCall ''what are the fees''],
       Inl (ValidationError ''Failed to parse validation response''))"
    by (simp add: run_stages_def then_node_def queryValidationNode_def env_not_json_def env0_def
        initial_state_def stream_env_failed_stage_def)
  then show ?thesis
    using C1_stream_shape [OF fees_stream_run] fees_stream_run
      C1_stream_shape [OF failed_stage_stream_run] failed_stage_stream_run
    by auto
qed

end
